theory Spec2Isabelle
  imports Main
begin

unbundle bit_operations_syntax

section \<open>Values, exceptions and syntax-tree nodes\<close>

text \<open>
  The literal carried by a \<open>Const\<close> node. Python integers are unbounded, so \<open>VInt\<close>
  carries an \<open>int\<close>. Floats, complex numbers and formatted strings are outside this
  value model; an operator whose Python result would be one of them ends in the outcome
  \<open>Unmodelled\<close> below.
\<close>

datatype pyval = VInt int | VBool bool | VStr string | VNone

text \<open>
  The exception classes that inference.py raises or catches. Exception arguments (the
  message) are dropped. \<open>UnresolvableName\<close> is a subclass of \<open>InferenceError\<close>, so an
  \<open>except InferenceError\<close> clause catches both.
\<close>

datatype error =
    InferenceError | UnresolvableName | NotFoundError | NoDefault
  | ASTNGBuildingException | SyntaxError
  | AttributeError | IndexError | KeyError | TypeError | ValueError | ZeroDivisionError
  | Unmodelled

definition is_InferenceError :: "error \<Rightarrow> bool" where
  "is_InferenceError e = (e = InferenceError \<or> e = UnresolvableName)"

definition proper_subclass_of_InferenceError :: "error \<Rightarrow> bool" where
  "proper_subclass_of_InferenceError e = (is_InferenceError e \<and> e \<noteq> InferenceError)"

text \<open>
  The parameter description of a \<open>Function\<close> or \<open>Lambda\<close>: the parameter names
  (\<open>None\<close> when astng has no information on them), the declared defaults by parameter
  name, and the names of the \<open>*\<close> and \<open>**\<close> parameters.
\<close>

datatype 'n arguments =
  Arguments (argnames: "string list option") (defaults: "(string \<times> 'n) list")
            (vararg: "string option") (kwarg: "string option")

text \<open>
  Nodes. The kinds whose \<open>infer\<close> is registered through \<open>path_wrapper\<close> carry a natural
  number, the identity of the node object: two occurrences of the same text are two
  nodes. \<open>Function\<close> carries its parameters, its \<open>type\<close> (\<open>function\<close>, \<open>method\<close>,
  \<open>classmethod\<close>, \<open>staticmethod\<close>), the answer of \<open>is_generator()\<close> and the values of
  the \<open>Return\<close> nodes found by \<open>nodes_of_class(Return, skip_klass=Function)\<close>.
  \<open>Lambda\<close> carries its parameters and its body \<open>code\<close>. \<open>Other\<close> stands for every node
  class that inference.py registers no \<open>infer\<close> for, with its class name. \<open>YES\<close>,
  \<open>Instance\<close> and \<open>Generator\<close> are inference results only.
\<close>

datatype node =
    YES
  | Const pyval
  | Name nat string
  | Keyword string node
  | CallFunc nat node "node list" "node option" "node option"
  | Subscript nat node "node list"
  | UnaryOp nat string node
  | BinOp nat string node node
  | List "node list"
  | Tuple "node list"
  | Dict "node list"
  | Function nat "node arguments" string bool "node list"
  | Lambda nat "node arguments" node
  | Class string
  | Module string
  | Import nat "(string \<times> string option) list"
  | Assign "node list" node
  | Instance node
  | Generator node
  | Other string

subsection \<open>Generators, the shared path and fuel\<close>

text \<open>
  A generator is materialised: the values it yields, in order, and the exception that
  ends it, if one does. A consumer that asks for the first value only (\<open>next()\<close>)
  takes the head of the values, whatever comes after it. The path of an inference request is shared by reference between
  all contexts of the request, so it is threaded through every call as state. A call
  returns \<open>None\<close> when the recursion budget of \<open>infer\<close> (below) is used up.
\<close>

type_synonym 'a gen = "'a list \<times> error option"
type_synonym path = "(node \<times> string option) list"
type_synonym 'a run = "('a \<times> path) option"

datatype flow = Continue | Return | Raise error

fun for_items :: "('a \<Rightarrow> path \<Rightarrow> (node list \<times> flow) run) \<Rightarrow> 'a list \<Rightarrow> path
    \<Rightarrow> (node list \<times> flow) run" where
  "for_items body [] p = Some (([], Continue), p)"
| "for_items body (x # xs) p =
     (case body x p of
        None \<Rightarrow> None
      | Some ((ys, Continue), p') \<Rightarrow>
          (case for_items body xs p' of
             None \<Rightarrow> None
           | Some ((zs, fl), p'') \<Rightarrow> Some ((ys @ zs, fl), p''))
      | Some ((ys, fl), p') \<Rightarrow> Some ((ys, fl), p'))"

text \<open>
  \<open>for x in g: body\<close> inside a generator function: the body runs on each value of \<open>g\<close>;
  it yields values and then goes on to the next value, returns from the function, or
  raises. When the values of \<open>g\<close> are used up, the exception that ends \<open>g\<close> is raised at
  the \<open>for\<close> statement.
\<close>

definition for_loop :: "('a \<Rightarrow> path \<Rightarrow> (node list \<times> flow) run) \<Rightarrow> 'a gen \<Rightarrow> path
    \<Rightarrow> node gen run" where
  "for_loop body g p =
     (case for_items body (fst g) p of
        None \<Rightarrow> None
      | Some ((ys, fl), p') \<Rightarrow>
          Some ((ys, case fl of Continue \<Rightarrow> snd g | Return \<Rightarrow> None | Raise e \<Rightarrow> Some e), p'))"

definition flow_of :: "error option \<Rightarrow> flow" where
  "flow_of err = (case err of None \<Rightarrow> Continue | Some e \<Rightarrow> Raise e)"

subsection \<open>Contexts and the external tree\<close>

record CallContext =
  args :: "node list"
  nargs :: "string \<rightharpoonup> node"
  starargs :: "node option"
  dstarargs :: "node option"

record InferenceContext =
  lookupname :: "string option"
  callcontext :: "CallContext option"
  boundnode :: "node option"

type_synonym infer_fn = "node \<Rightarrow> InferenceContext \<Rightarrow> path \<Rightarrow> node gen run"

text \<open>
  What inference.py asks of the tree and of the manager, outside this module:
  scope lookup from a node (\<open>lookup\<close>, giving the frame and the defining statements),
  the name a defining statement is asked to resolve when a lookup delegates to it
  (\<open>stmt_infer_name\<close>; none when the statement is itself the value), \<open>parent.frame()\<close>,
  \<open>root()\<close>, the module operations \<open>relative_name\<close> and \<open>import_module\<close>, \<open>real_name\<close> of
  an import, attribute lookup \<open>getattr\<close> and the key comparison \<open>eq\<close>.
\<close>

record env =
  lookup :: "node \<Rightarrow> string \<Rightarrow> node \<times> node list"
  stmt_infer_name :: "node \<Rightarrow> node \<Rightarrow> string option \<Rightarrow> string option"
  parent_frame :: "node \<Rightarrow> node"
  root :: "node \<Rightarrow> node"
  relative_name :: "node \<Rightarrow> string \<Rightarrow> string"
  import_module :: "node \<Rightarrow> string \<Rightarrow> error + node"
  real_name :: "node \<Rightarrow> string \<Rightarrow> string"
  getattr :: "node \<Rightarrow> string \<Rightarrow> error + node list"
  node_eq :: "node \<Rightarrow> pyval \<Rightarrow> error + bool"

section \<open>Literal semantics of the operators\<close>

text \<open>
  The lambdas of \<open>UNARY_OP_IMPL\<close> and \<open>BIN_OP_IMPL\<close> run Python 2 operators on the
  literal values. A \<open>bool\<close> is an \<open>int\<close> in arithmetic; \<open>/\<close> on integers is floor
  division (the module imports only \<open>generators\<close> from \<open>__future__\<close>).
\<close>

fun as_int :: "pyval \<Rightarrow> int option" where
  "as_int (VInt i) = Some i"
| "as_int (VBool b) = Some (if b then 1 else 0)"
| "as_int _ = None"

definition int_op :: "(int \<Rightarrow> int \<Rightarrow> error + pyval) \<Rightarrow> pyval \<Rightarrow> pyval \<Rightarrow> error + pyval" where
  "int_op f a b =
     (case as_int a of
        None \<Rightarrow> Inl TypeError
      | Some x \<Rightarrow> (case as_int b of None \<Rightarrow> Inl TypeError | Some y \<Rightarrow> f x y))"

fun py_add :: "pyval \<Rightarrow> pyval \<Rightarrow> error + pyval" where
  "py_add (VStr s) (VStr t) = Inr (VStr (s @ t))"
| "py_add a b = int_op (\<lambda>x y. Inr (VInt (x + y))) a b"

definition py_sub :: "pyval \<Rightarrow> pyval \<Rightarrow> error + pyval" where
  "py_sub a b = int_op (\<lambda>x y. Inr (VInt (x - y))) a b"

definition py_floordiv :: "pyval \<Rightarrow> pyval \<Rightarrow> error + pyval" where
  "py_floordiv a b =
     int_op (\<lambda>x y. if y = 0 then Inl ZeroDivisionError else Inr (VInt (x div y))) a b"

fun py_mul :: "pyval \<Rightarrow> pyval \<Rightarrow> error + pyval" where
  "py_mul (VStr s) b =
     (case as_int b of None \<Rightarrow> Inl TypeError
      | Some n \<Rightarrow> Inr (VStr (concat (replicate (nat n) s))))"
| "py_mul a (VStr s) =
     (case as_int a of None \<Rightarrow> Inl TypeError
      | Some n \<Rightarrow> Inr (VStr (concat (replicate (nat n) s))))"
| "py_mul a b = int_op (\<lambda>x y. Inr (VInt (x * y))) a b"

text \<open>
  \<open>Unmodelled\<close> is no Python exception. It marks the two places where Python goes on
  with a value that \<open>pyval\<close> does not have: a negative exponent on a non-zero base
  gives a float, and \<open>%\<close> on a string formats it. The inference of the code yields a
  constant of that value there; no property below is stated at such operands.
\<close>

definition py_pow :: "pyval \<Rightarrow> pyval \<Rightarrow> error + pyval" where
  "py_pow a b =
     int_op (\<lambda>x y. if 0 \<le> y then Inr (VInt (x ^ nat y))
                    else if x = 0 then Inl ZeroDivisionError
                    else Inl Unmodelled) a b"

fun py_mod :: "pyval \<Rightarrow> pyval \<Rightarrow> error + pyval" where
  "py_mod (VStr s) b = Inl Unmodelled"
| "py_mod a b =
     int_op (\<lambda>x y. if y = 0 then Inl ZeroDivisionError else Inr (VInt (x mod y))) a b"

fun py_and :: "pyval \<Rightarrow> pyval \<Rightarrow> error + pyval" where
  "py_and (VBool x) (VBool y) = Inr (VBool (x \<and> y))"
| "py_and a b = int_op (\<lambda>x y. Inr (VInt (x AND y))) a b"

fun py_or :: "pyval \<Rightarrow> pyval \<Rightarrow> error + pyval" where
  "py_or (VBool x) (VBool y) = Inr (VBool (x \<or> y))"
| "py_or a b = int_op (\<lambda>x y. Inr (VInt (x OR y))) a b"

fun py_xor :: "pyval \<Rightarrow> pyval \<Rightarrow> error + pyval" where
  "py_xor (VBool x) (VBool y) = Inr (VBool (x \<noteq> y))"
| "py_xor a b = int_op (\<lambda>x y. Inr (VInt (x XOR y))) a b"

text \<open>
  Python's own shifts, which \<open>BIN_OP_IMPL\<close> does not use: they are here to compare the
  table with them. A negative shift count raises \<open>ValueError\<close>.
\<close>

definition py_lshift :: "pyval \<Rightarrow> pyval \<Rightarrow> error + pyval" where
  "py_lshift a b =
     int_op (\<lambda>x y. if y < 0 then Inl ValueError else Inr (VInt (push_bit (nat y) x))) a b"

definition py_rshift :: "pyval \<Rightarrow> pyval \<Rightarrow> error + pyval" where
  "py_rshift a b =
     int_op (\<lambda>x y. if y < 0 then Inl ValueError else Inr (VInt (drop_bit (nat y) x))) a b"

fun py_pos :: "pyval \<Rightarrow> error + pyval" where
  "py_pos a = (case as_int a of None \<Rightarrow> Inl TypeError | Some x \<Rightarrow> Inr (VInt x))"

fun py_neg :: "pyval \<Rightarrow> error + pyval" where
  "py_neg a = (case as_int a of None \<Rightarrow> Inl TypeError | Some x \<Rightarrow> Inr (VInt (- x)))"

fun py_not :: "pyval \<Rightarrow> error + pyval" where
  "py_not (VInt i) = Inr (VBool (i = 0))"
| "py_not (VBool b) = Inr (VBool (\<not> b))"
| "py_not (VStr s) = Inr (VBool (s = []))"
| "py_not VNone = Inr (VBool True)"

definition UNARY_OP_IMPL :: "string \<rightharpoonup> ((pyval \<Rightarrow> error + pyval) \<times> string option)" where
  "UNARY_OP_IMPL = map_of
     [(''+'', (py_pos, Some ''__pos__'')),
      (''-'', (py_neg, Some ''__neg__'')),
      (''not'', (py_not, None))]"

definition BIN_OP_IMPL :: "string \<rightharpoonup> ((pyval \<Rightarrow> pyval \<Rightarrow> error + pyval) \<times> string)" where
  "BIN_OP_IMPL = map_of
     [(''+'', (py_add, ''__add__'')),
      (''-'', (py_sub, ''__sub__'')),
      (''/'', (py_floordiv, ''__div__'')),
      (''//'', (py_floordiv, ''__floordiv__'')),
      (''*'', (py_mul, ''__mul__'')),
      (''**'', (py_pow, ''__power__'')),
      (''%'', (py_mod, ''__mod__'')),
      (''&'', (py_and, ''__and__'')),
      (''|'', (py_or, ''__or__'')),
      (''^'', (py_xor, ''__xor__'')),
      (''<<'', (py_xor, ''__lshift__'')),
      (''>>'', (py_xor, ''__rshift__''))]"

text \<open>
  Modelled from the spec: \<open>_py_value\<close> and \<open>const_factory\<close> are imported from
  \<open>_inference_ast\<close> / \<open>_inference_compiler\<close>, which are not part of inference.py. An
  operand "reduces to a concrete literal" when it is a \<open>Const\<close>, whose value is then
  taken; any other operand raises \<open>ValueError\<close> (not a constant). \<open>const_factory\<close>
  builds the literal node of a value.
\<close>

definition py_value :: "node \<Rightarrow> error + pyval" where
  "py_value n = (case n of Const v \<Rightarrow> Inr v | _ \<Rightarrow> Inl ValueError)"

definition const_factory :: "pyval \<Rightarrow> node" where
  "const_factory v = Const v"

section \<open>The \<open>infer\<close> methods\<close>

definition infer_default :: infer_fn where
  "infer_default self context p = Some (([], Some InferenceError), p)"

text \<open>
  Modelled from the spec: \<open>infer_end\<close> is imported from \<open>nodes\<close>, which is not part of
  inference.py. Literal containers, class and module nodes "infer to themselves".
\<close>

definition infer_end :: infer_fn where
  "infer_end self context p = Some (([self], None), p)"

text \<open>
  Modelled from the spec: \<open>InferenceContext.clone\<close>, \<open>copy_context\<close> and \<open>path_wrapper\<close>
  are imported from \<open>nodes\<close> and the package, which are not part of inference.py. Every
  field of a context but the path is copied by value, and the path is shared, so a clone
  is the same record and the path stays in the state. The recursion guard: before a node
  \<open>N\<close> is resolved for the name \<open>L\<close>, the pair \<open>(N, L)\<close> is looked up in the path; if it
  is there, nothing is yielded for this branch; otherwise the pair is recorded in the
  path before recursing.
\<close>

definition clone :: "InferenceContext \<Rightarrow> InferenceContext" where
  "clone context = context"

definition copy_context :: "InferenceContext \<Rightarrow> InferenceContext" where
  "copy_context context = clone context"

definition fresh_context :: InferenceContext where
  "fresh_context = \<lparr>lookupname = None, callcontext = None, boundnode = None\<rparr>"

definition path_wrapper :: "infer_fn \<Rightarrow> infer_fn" where
  "path_wrapper func node context p =
     (if (node, lookupname context) \<in> set p then Some (([], None), p)
      else func node context ((node, lookupname context) # p))"

section \<open>The subscription protocol\<close>

definition tl_getitem :: "node list \<Rightarrow> pyval \<Rightarrow> error + node" where
  \<comment> \<open>\<open>self.elts[index]\<close>: a negative index counts from the end, an index that
      is no integer raises \<open>TypeError\<close>.\<close>
  "tl_getitem elts index =
     (case as_int index of
        None \<Rightarrow> Inl TypeError
      | Some i \<Rightarrow>
          if 0 \<le> i \<and> i < int (length elts) then Inr (elts ! nat i)
          else if i < 0 \<and> - int (length elts) \<le> i
            then Inr (elts ! nat (int (length elts) + i))
          else Inl IndexError)"

fun first_match :: "env \<Rightarrow> node list \<Rightarrow> pyval \<Rightarrow> error + bool" where
  "first_match E [] key = Inr False"
| "first_match E (inferedkey # ks) key =
     (if inferedkey = YES then first_match E ks key
      else (case node_eq E inferedkey key of
              Inl e \<Rightarrow> Inl e
            | Inr True \<Rightarrow> Inr True
            | Inr False \<Rightarrow> first_match E ks key))"

text \<open>
  \<open>dict_getitem\<close> walks the flat list \<open>items\<close> (key, value, key, value, ...) and infers
  each key with no context, that is with a fresh context and a fresh path.
\<close>

fun dict_getitem :: "env \<Rightarrow> infer_fn \<Rightarrow> node list \<Rightarrow> pyval \<Rightarrow> (error + node) option" where
  "dict_getitem E infr [] key = Some (Inl IndexError)"
| "dict_getitem E infr (k # rest) key =
     (case infr k fresh_context [] of
        None \<Rightarrow> None
      | Some ((ks, err), _) \<Rightarrow>
          (case first_match E ks key of
             Inl e \<Rightarrow> Some (Inl e)
           | Inr True \<Rightarrow> (case rest of [] \<Rightarrow> Some (Inl IndexError) | v # _ \<Rightarrow> Some (Inr v))
           | Inr False \<Rightarrow>
               (case err of
                  Some e \<Rightarrow> Some (Inl e)
                | None \<Rightarrow> dict_getitem E infr (tl rest) key)))"

text \<open>
  \<open>x.getitem(index)\<close>: lists and tuples have \<open>tl_getitem\<close>, dictionaries
  \<open>dict_getitem\<close>; any other node has no such attribute. Modelled from the spec: the
  class of \<open>YES\<close> is not part of inference.py; Unknown propagates through a compound
  computation, so indexed access on \<open>YES\<close> gives \<open>YES\<close>.
\<close>

definition getitem :: "env \<Rightarrow> infer_fn \<Rightarrow> node \<Rightarrow> pyval \<Rightarrow> (error + node) option" where
  "getitem E infr x index =
     (case x of
        List elts \<Rightarrow> Some (tl_getitem elts index)
      | Tuple elts \<Rightarrow> Some (tl_getitem elts index)
      | Dict items \<Rightarrow> dict_getitem E infr items index
      | YES \<Rightarrow> Some (Inr YES)
      | _ \<Rightarrow> Some (Inl AttributeError))"

section \<open>The call context\<close>

definition is_Keyword :: "node \<Rightarrow> bool" where
  "is_Keyword n = (case n of Keyword _ _ \<Rightarrow> True | _ \<Rightarrow> False)"

definition CallContext_init :: "node list \<Rightarrow> node option \<Rightarrow> node option \<Rightarrow> CallContext" where
  "CallContext_init as sa dsa =
     \<lparr>args = filter (\<lambda>arg. \<not> is_Keyword arg) as,
      nargs = fold (\<lambda>arg m. case arg of Keyword name expr \<Rightarrow> m(name \<mapsto> expr) | _ \<Rightarrow> m)
                as Map.empty,
      starargs = sa,
      dstarargs = dsa\<rparr>"

definition arguments_of :: "node \<Rightarrow> node arguments" where
  "arguments_of funcnode =
     (case funcnode of
        Function _ a _ _ _ \<Rightarrow> a
      | Lambda _ a _ \<Rightarrow> a
      | _ \<Rightarrow> Arguments None [] None None)"

definition func_type :: "node \<Rightarrow> string" where
  "func_type funcnode = (case funcnode of Function _ _ t _ _ \<Rightarrow> t | _ \<Rightarrow> ''function'')"

text \<open>
  Modelled from the spec: \<open>mularg_class\<close> and \<open>default_value\<close> are methods of the
  function node, not part of inference.py. A parameter that is a variadic collector
  gives a synthetic placeholder (an empty \<open>Tuple\<close> for \<open>*\<close>, an empty \<open>Dict\<close> for
  \<open>**\<close>); \<open>default_value\<close> gives the declared default of the parameter or raises
  \<open>NoDefault\<close>.
\<close>

definition mularg_class :: "node \<Rightarrow> string \<Rightarrow> node option" where
  "mularg_class funcnode name =
     (if vararg (arguments_of funcnode) = Some name then Some (Tuple [])
      else if kwarg (arguments_of funcnode) = Some name then Some (Dict [])
      else None)"

definition default_value :: "node \<Rightarrow> string \<Rightarrow> error + node" where
  "default_value funcnode name =
     (case map_of (defaults (arguments_of funcnode)) name of
        None \<Rightarrow> Inl NoDefault
      | Some d \<Rightarrow> Inr d)"

fun index_of :: "'a list \<Rightarrow> 'a \<Rightarrow> nat option" where
  "index_of [] x = None"
| "index_of (y # ys) x = (if y = x then Some 0 else map_option Suc (index_of ys x))"

text \<open>
  \<open>infer_default\<close> is a plain function: a node without an \<open>infer\<close> of its own raises
  when \<open>infer\<close> is called. Every other \<open>infer\<close> is a generator and raises only when it
  is iterated.
\<close>

definition raises_at_call :: "node \<Rightarrow> bool" where
  "raises_at_call n =
     (case n of Other _ \<Rightarrow> True | Keyword _ _ \<Rightarrow> True | Assign _ _ \<Rightarrow> True | _ \<Rightarrow> False)"

text \<open>
  An entry of the list \<open>its\<close>: the tuple \<open>(YES,)\<close> or the generator of an item that has
  not started yet.
\<close>

datatype thunk = Values "node list" | Infer node

fun collect_its :: "env \<Rightarrow> infer_fn \<Rightarrow> pyval \<Rightarrow> node list \<Rightarrow> (error + thunk list) option" where
  "collect_its E infr index [] = Some (Inr [])"
| "collect_its E infr index (infered # rest) =
     (let more = (\<lambda>ts. case collect_its E infr index rest of
                          None \<Rightarrow> None
                        | Some (Inl e) \<Rightarrow> Some (Inl e)
                        | Some (Inr its) \<Rightarrow> Some (Inr (ts @ its)))
      in if infered = YES then more [Values [YES]]
         else (case getitem E infr infered index of
                 None \<Rightarrow> None
               | Some (Inl e) \<Rightarrow>
                   if is_InferenceError e \<or> e = AttributeError then more [Values [YES]]
                   else if e = IndexError then more []
                   else Some (Inl e)
               | Some (Inr item) \<Rightarrow>
                   if raises_at_call item then more [Values [YES]] else more [Infer item]))"

fun chain_its :: "infer_fn \<Rightarrow> thunk list \<Rightarrow> InferenceContext \<Rightarrow> path \<Rightarrow> node gen run" where
  "chain_its infr [] context p = Some (([], None), p)"
| "chain_its infr (t # ts) context p =
     (case (case t of Values vs \<Rightarrow> Some ((vs, None), p) | Infer n \<Rightarrow> infr n context p) of
        None \<Rightarrow> None
      | Some ((vs, Some e), p') \<Rightarrow> Some ((vs, Some e), p')
      | Some ((vs, None), p') \<Rightarrow>
          (case chain_its infr ts context p' of
             None \<Rightarrow> None
           | Some ((ws, err), p'') \<Rightarrow> Some ((vs @ ws, err), p'')))"

text \<open>
  A numbered step of \<open>infer_argument\<close> either returns a generator or passes on to the
  next step.
\<close>

datatype attempt = Done "node gen run" | Pass path

definition from_variadic :: "env \<Rightarrow> infer_fn \<Rightarrow> node \<Rightarrow> pyval \<Rightarrow> InferenceContext \<Rightarrow> path
    \<Rightarrow> attempt" where
  "from_variadic E infr source index context p =
     (case infr source context p of
        None \<Rightarrow> Done None
      | Some ((vals, err), p1) \<Rightarrow>
          (case collect_its E infr index vals of
             None \<Rightarrow> Done None
           | Some (Inl e) \<Rightarrow> Done (Some (([], Some e), p1))
           | Some (Inr its) \<Rightarrow>
               (case err of
                  Some e \<Rightarrow> Done (Some (([], Some e), p1))
                | None \<Rightarrow> if its \<noteq> [] then Done (chain_its infr its context p1) else Pass p1)))"

definition positional_steps :: "env \<Rightarrow> infer_fn \<Rightarrow> CallContext \<Rightarrow> node \<Rightarrow> string
    \<Rightarrow> InferenceContext \<Rightarrow> path \<Rightarrow> attempt" where
  "positional_steps E infr self funcnode name context p =
     (case argnames (arguments_of funcnode) of
        None \<Rightarrow> Pass p
      | Some names \<Rightarrow>
          (case index_of names name of
             None \<Rightarrow> Pass p
           | Some argindex \<Rightarrow>
               if argindex = 0 \<and> func_type funcnode \<in> {''method'', ''classmethod''} then
                 (let bound = (case boundnode context of
                                 Some b \<Rightarrow> b
                               | None \<Rightarrow> parent_frame E funcnode)
                  in if func_type funcnode = ''method''
                     then Done (Some (([Instance bound], None), p))
                     else Done (Some (([bound], None), p)))
               else if argindex < length (args self)
                 then Done (infr (args self ! argindex) context p)
               else (case starargs self of
                       None \<Rightarrow> Pass p
                     | Some s \<Rightarrow> from_variadic E infr s (VInt (int argindex)) context p)))"

definition infer_argument :: "env \<Rightarrow> infer_fn \<Rightarrow> CallContext \<Rightarrow> node \<Rightarrow> string
    \<Rightarrow> InferenceContext \<Rightarrow> path \<Rightarrow> node gen run" where
  "infer_argument E infr self funcnode name context p =
     (case nargs self name of
        Some expr \<Rightarrow> infr expr context p
      | None \<Rightarrow>
          (case positional_steps E infr self funcnode name context p of
             Done r \<Rightarrow> r
           | Pass p1 \<Rightarrow>
               (case (case dstarargs self of
                        None \<Rightarrow> Pass p1
                      | Some d \<Rightarrow> from_variadic E infr d (VStr name) context p1) of
                  Done r \<Rightarrow> r
                | Pass p2 \<Rightarrow>
                    (case mularg_class funcnode name of
                       Some mularg \<Rightarrow> Some (([mularg], None), p2)
                     | None \<Rightarrow>
                         (case default_value funcnode name of
                            Inl _ \<Rightarrow> Some (([], Some InferenceError), p2)
                          | Inr d \<Rightarrow> infr d context p2)))))"

definition infer_function :: "env \<Rightarrow> infer_fn \<Rightarrow> infer_fn" where
  "infer_function E infr self context p =
     (case lookupname context of
        None \<Rightarrow> Some (([self], None), p)
      | Some name \<Rightarrow>
          (case callcontext context of
             Some cc \<Rightarrow>
               infer_argument E infr cc self name
                 ((copy_context context)\<lparr>callcontext := None\<rparr>) p
           | None \<Rightarrow>
               (case argnames (arguments_of self) of
                  None \<Rightarrow> Some (([YES], None), p)
                | Some names \<Rightarrow>
                    if name \<notin> set names then Some (([], Some InferenceError), p)
                    else if name = hd names \<and> func_type self = ''method''
                      then Some (([Instance (parent_frame E self)], None), p)
                    else if name = hd names \<and> func_type self = ''classmethod''
                      then Some (([parent_frame E self], None), p)
                    else (case mularg_class self name of
                            Some mularg \<Rightarrow> Some (([mularg], None), p)
                          | None \<Rightarrow>
                              (case default_value self name of
                                 Inl _ \<Rightarrow> Some (([YES], None), p)
                               | Inr d \<Rightarrow>
                                   (case infr d (copy_context context) p of
                                      None \<Rightarrow> None
                                    | Some ((vs, err), p') \<Rightarrow>
                                        if err = None \<or> err = Some NoDefault
                                        then Some ((vs @ [YES], None), p')
                                        else Some ((vs, err), p')))))))"

text \<open>
  Modelled from the spec: \<open>_infer_stmts\<close> is imported from \<open>nodes\<close>, which is not part
  of inference.py. A name is resolved by delegating to each visible defining statement
  and concatenating the results; the failure of one candidate does not abort its
  siblings, and the operation fails outright when no candidate gave a value.
\<close>

definition infer_stmts :: "env \<Rightarrow> infer_fn \<Rightarrow> node list \<Rightarrow> InferenceContext \<Rightarrow> node \<Rightarrow> path
    \<Rightarrow> node gen run" where
  "infer_stmts E infr stmts context frame p =
     (case for_loop
             (\<lambda>stmt p1.
                case infr stmt
                       ((clone context)\<lparr>lookupname :=
                           stmt_infer_name E stmt frame (lookupname context)\<rparr>) p1 of
                  None \<Rightarrow> None
                | Some ((vs, err), p2) \<Rightarrow>
                    (case err of
                       None \<Rightarrow> Some ((vs, Continue), p2)
                     | Some e \<Rightarrow>
                         if is_InferenceError e then Some ((vs, Continue), p2)
                         else Some ((vs, Raise e), p2)))
             (stmts, None) p of
        None \<Rightarrow> None
      | Some ((vs, err), p') \<Rightarrow>
          if err = None \<and> vs = [] then Some (([], Some InferenceError), p')
          else Some ((vs, err), p'))"

definition infer_name :: "env \<Rightarrow> infer_fn \<Rightarrow> infer_fn" where
  "infer_name E infr self context p =
     (case self of
        Name _ name \<Rightarrow>
          (let context' = (clone context)\<lparr>lookupname := Some name\<rparr>;
               (frame, stmts) = lookup E self name
           in if stmts = [] then Some (([], Some UnresolvableName), p)
              else infer_stmts E infr stmts context' frame p)
      | _ \<Rightarrow> Some (([], Some AttributeError), p))"

section \<open>The \<open>infer_call_result\<close> methods\<close>

definition infer_call_result_function :: "infer_fn \<Rightarrow> node \<Rightarrow> node \<Rightarrow> InferenceContext \<Rightarrow> path
    \<Rightarrow> node gen run" where
  "infer_call_result_function infr self caller context p =
     (case self of
        Function _ _ _ is_generator returns \<Rightarrow>
          if is_generator then Some (([Generator self], None), p)
          else for_loop
                 (\<lambda>returnvalue p1.
                    case infr returnvalue context p1 of
                      None \<Rightarrow> None
                    | Some ((vs, err), p2) \<Rightarrow>
                        (case err of
                           None \<Rightarrow> Some ((vs, Continue), p2)
                         | Some e \<Rightarrow>
                             if is_InferenceError e then Some ((vs @ [YES], Continue), p2)
                             else Some ((vs, Raise e), p2)))
                 (returns, None) p
      | _ \<Rightarrow> Some (([], Some AttributeError), p))"

definition infer_call_result_lambda :: "infer_fn \<Rightarrow> node \<Rightarrow> node \<Rightarrow> InferenceContext \<Rightarrow> path
    \<Rightarrow> node gen run" where
  "infer_call_result_lambda infr self caller context p =
     (case self of
        Lambda _ _ code \<Rightarrow> infr code context p
      | _ \<Rightarrow> Some (([], Some AttributeError), p))"

definition infer_call_result_class :: "node \<Rightarrow> node \<Rightarrow> InferenceContext \<Rightarrow> path \<Rightarrow> node gen run" where
  "infer_call_result_class self caller context p = Some (([Instance self], None), p)"

text \<open>
  \<open>callee.infer_call_result(caller, context)\<close>: the method is registered on \<open>Function\<close>,
  \<open>Lambda\<close> and \<open>Class\<close>; on any other value the attribute lookup raises
  \<open>AttributeError\<close>.
\<close>

definition infer_call_result :: "infer_fn \<Rightarrow> node \<Rightarrow> node \<Rightarrow> InferenceContext \<Rightarrow> path
    \<Rightarrow> node gen run" where
  "infer_call_result infr callee caller context p =
     (case callee of
        Function _ _ _ _ _ \<Rightarrow> infer_call_result_function infr callee caller context p
      | Lambda _ _ _ \<Rightarrow> infer_call_result_lambda infr callee caller context p
      | Class _ \<Rightarrow> infer_call_result_class callee caller context p
      | _ \<Rightarrow> Some (([], Some AttributeError), p))"

section \<open>Calls, imports, subscripts and operators\<close>

text \<open>
  In \<open>infer_callfunc\<close> the flag \<open>one_infered\<close> is set exactly when a value is yielded,
  so at the end of the loop it is false exactly when nothing was yielded.
\<close>

definition infer_callfunc :: "env \<Rightarrow> infer_fn \<Rightarrow> infer_fn" where
  "infer_callfunc E infr self context p =
     (case self of
        CallFunc _ func as sa kw \<Rightarrow>
          (let context' = (clone context)\<lparr>callcontext := Some (CallContext_init as sa kw)\<rparr>
           in case infr func context' p of
                None \<Rightarrow> None
              | Some (callees, p0) \<Rightarrow>
                  (case for_loop
                          (\<lambda>callee p1.
                             if callee = YES then Some (([callee], Continue), p1)
                             else (case infer_call_result infr callee self context' p1 of
                                     None \<Rightarrow> None
                                   | Some ((vs, err), p2) \<Rightarrow>
                                       (case err of
                                          None \<Rightarrow> Some ((vs, Continue), p2)
                                        | Some e \<Rightarrow>
                                            if e = AttributeError \<or> is_InferenceError e
                                            then Some ((vs, Continue), p2)
                                            else Some ((vs, Raise e), p2))))
                          callees p0 of
                     None \<Rightarrow> None
                   | Some ((vs, err), p') \<Rightarrow>
                       if err = None \<and> vs = [] then Some (([], Some InferenceError), p')
                       else Some ((vs, err), p')))
      | _ \<Rightarrow> Some (([], Some AttributeError), p))"

definition name_of_module :: "node \<Rightarrow> string option" where
  "name_of_module m = (case m of Module name \<Rightarrow> Some name | _ \<Rightarrow> None)"

definition imported_module_astng :: "env \<Rightarrow> node \<Rightarrow> string \<Rightarrow> error + node" where
  "imported_module_astng E node modname =
     (let mymodule = root E node
      in if Some (relative_name E mymodule modname) = name_of_module mymodule
         then Inl InferenceError
         else (case import_module E mymodule modname of
                 Inl e \<Rightarrow>
                   if e = ASTNGBuildingException \<or> e = SyntaxError then Inl InferenceError
                   else Inl e
               | Inr m \<Rightarrow> Inr m))"

definition infer_import :: "env \<Rightarrow> bool \<Rightarrow> infer_fn" where
  "infer_import E asname self context p =
     (case lookupname context of
        None \<Rightarrow> Some (([], Some InferenceError), p)
      | Some name \<Rightarrow>
          (case imported_module_astng E self (if asname then real_name E self name else name) of
             Inl e \<Rightarrow> Some (([], Some e), p)
           | Inr m \<Rightarrow> Some (([m], None), p)))"

text \<open>
  \<open>infer_subscript\<close> asks the generator of the index for its first value only. An
  index generator that ends without a value raises \<open>StopIteration\<close> inside the
  generator \<open>infer_subscript\<close>, which ends it with nothing yielded. \<open>index.value\<close>
  raises \<open>AttributeError\<close> on a value that is no \<open>Const\<close>.
\<close>

definition infer_subscript :: "env \<Rightarrow> infer_fn \<Rightarrow> infer_fn" where
  "infer_subscript E infr self context p =
     (case self of
        Subscript _ expr subs \<Rightarrow>
          if length subs = 1 then
            (case infr (hd subs) context p of
               None \<Rightarrow> None
             | Some (([], err), p1) \<Rightarrow> Some (([], err), p1)
             | Some ((index # _, _), p1) \<Rightarrow>
                 if index = YES then Some (([YES], None), p1)
                 else (case (case index of
                               Const v \<Rightarrow> getitem E infr expr v
                             | _ \<Rightarrow> Some (Inl AttributeError)) of
                         None \<Rightarrow> None
                       | Some (Inl e) \<Rightarrow>
                           if e = AttributeError then Some (([], Some InferenceError), p1)
                           else if e = IndexError then Some (([YES], None), p1)
                           else Some (([], Some e), p1)
                       | Some (Inr assigned) \<Rightarrow> infr assigned context p1))
          else Some (([], Some InferenceError), p)
      | _ \<Rightarrow> Some (([], Some AttributeError), p))"

definition operand_fallback :: "env \<Rightarrow> node \<Rightarrow> string \<Rightarrow> node list" where
  \<comment> \<open>\<open>try: x.getattr(meth); yield x\<close> / \<open>except: yield YES\<close>\<close>
  "operand_fallback E x meth = (case getattr E x meth of Inr _ \<Rightarrow> [x] | Inl _ \<Rightarrow> [YES])"

definition infer_unary_operator :: "env \<Rightarrow> infer_fn \<Rightarrow> node \<Rightarrow> InferenceContext
    \<Rightarrow> (pyval \<Rightarrow> error + pyval) \<Rightarrow> string option \<Rightarrow> path \<Rightarrow> node gen run" where
  "infer_unary_operator E infr operand_node context impl meth p =
     (case infr operand_node context p of
        None \<Rightarrow> None
      | Some (operands, p0) \<Rightarrow>
          for_loop
            (\<lambda>operand p1.
               case py_value operand of
                 Inl _ \<Rightarrow>
                   (case meth of
                      None \<Rightarrow> Some (([YES], Continue), p1)
                    | Some m \<Rightarrow> Some ((operand_fallback E operand m, Continue), p1))
               | Inr v \<Rightarrow>
                   (case impl v of
                      Inl _ \<Rightarrow> Some (([YES], Continue), p1)
                    | Inr v' \<Rightarrow> Some (([const_factory v'], Continue), p1)))
            operands p0)"

definition infer_unaryop :: "env \<Rightarrow> infer_fn \<Rightarrow> infer_fn" where
  "infer_unaryop E infr self context p =
     (case self of
        UnaryOp _ op operand_node \<Rightarrow>
          (case UNARY_OP_IMPL op of
             None \<Rightarrow> Some (([], Some KeyError), p)
           | Some (impl, meth) \<Rightarrow> infer_unary_operator E infr operand_node context impl meth p)
      | _ \<Rightarrow> Some (([], Some AttributeError), p))"

definition infer_binary_operator :: "env \<Rightarrow> infer_fn \<Rightarrow> node \<Rightarrow> node \<Rightarrow> InferenceContext
    \<Rightarrow> (pyval \<Rightarrow> pyval \<Rightarrow> error + pyval) \<Rightarrow> string \<Rightarrow> path \<Rightarrow> node gen run" where
  "infer_binary_operator E infr left right context impl meth p =
     (case infr left context p of
        None \<Rightarrow> None
      | Some (lhss, p0) \<Rightarrow>
          for_loop
            (\<lambda>lhs p1.
               case py_value lhs of
                 Inl _ \<Rightarrow> Some ((operand_fallback E lhs meth, Continue), p1)
               | Inr lhsvalue \<Rightarrow>
                   (case infr right context p1 of
                      None \<Rightarrow> None
                    | Some (rhss, p2) \<Rightarrow>
                        (case for_loop
                                (\<lambda>rhs p3.
                                   case py_value rhs of
                                     Inl _ \<Rightarrow> Some ((operand_fallback E rhs meth, Continue), p3)
                                   | Inr rhsvalue \<Rightarrow>
                                       (case impl lhsvalue rhsvalue of
                                          Inl e \<Rightarrow>
                                            if e = TypeError then Some (([YES], Continue), p3)
                                            else Some (([], Raise e), p3)
                                        | Inr v \<Rightarrow> Some (([const_factory v], Continue), p3)))
                                rhss p2 of
                           None \<Rightarrow> None
                         | Some ((vs, err), p4) \<Rightarrow> Some ((vs, flow_of err), p4))))
            lhss p0)"

definition infer_binop :: "env \<Rightarrow> infer_fn \<Rightarrow> infer_fn" where
  "infer_binop E infr self context p =
     (case self of
        BinOp _ op left right \<Rightarrow>
          (case BIN_OP_IMPL op of
             None \<Rightarrow> Some (([], Some KeyError), p)
           | Some (impl, meth) \<Rightarrow> infer_binary_operator E infr left right context impl meth p)
      | _ \<Rightarrow> Some (([], Some AttributeError), p))"

section \<open>Dispatch\<close>

text \<open>
  \<open>x.infer(context)\<close> by the class of \<open>x\<close>, as registered at the end of each
  definition of inference.py. The first argument bounds the depth of nested \<open>infer\<close>
  calls; \<open>None\<close> is returned when it is used up. Modelled from the spec: the \<open>infer\<close>
  of \<open>Const\<close> and of the result values \<open>YES\<close>, \<open>Instance\<close> and \<open>Generator\<close> is not
  registered in inference.py; inference terminates in them, so they infer to themselves.
\<close>

fun infer :: "nat \<Rightarrow> env \<Rightarrow> infer_fn" where
  "infer 0 E self context p = None"
| "infer (Suc n) E self context p =
     (case self of
        Module _ \<Rightarrow> infer_end self context p
      | Class _ \<Rightarrow> infer_end self context p
      | List _ \<Rightarrow> infer_end self context p
      | Tuple _ \<Rightarrow> infer_end self context p
      | Dict _ \<Rightarrow> infer_end self context p
      | Const _ \<Rightarrow> infer_end self context p
      | YES \<Rightarrow> infer_end self context p
      | Instance _ \<Rightarrow> infer_end self context p
      | Generator _ \<Rightarrow> infer_end self context p
      | Function _ _ _ _ _ \<Rightarrow> path_wrapper (infer_function E (infer n E)) self context p
      | Lambda _ _ _ \<Rightarrow> path_wrapper (infer_function E (infer n E)) self context p
      | Name _ _ \<Rightarrow> path_wrapper (infer_name E (infer n E)) self context p
      | CallFunc _ _ _ _ _ \<Rightarrow> path_wrapper (infer_callfunc E (infer n E)) self context p
      | Import _ _ \<Rightarrow> path_wrapper (infer_import E True) self context p
      | Subscript _ _ _ \<Rightarrow> path_wrapper (infer_subscript E (infer n E)) self context p
      | UnaryOp _ _ _ \<Rightarrow> path_wrapper (infer_unaryop E (infer n E)) self context p
      | BinOp _ _ _ _ \<Rightarrow> path_wrapper (infer_binop E (infer n E)) self context p
      | _ \<Rightarrow> infer_default self context p)"

section \<open>Assignment related nodes\<close>

text \<open>
  One pass of the \<open>for part in parts\<close> loop of \<open>_resolve_asspart\<close>; \<open>deeper\<close> is the
  recursive call on the rest of the path, and \<open>at_end\<close> says that the path is used up.
\<close>

definition resolve_part :: "env \<Rightarrow> infer_fn \<Rightarrow> int \<Rightarrow> bool
    \<Rightarrow> (node gen \<Rightarrow> InferenceContext \<Rightarrow> path \<Rightarrow> node gen run)
    \<Rightarrow> InferenceContext \<Rightarrow> node \<Rightarrow> path \<Rightarrow> (node list \<times> flow) run" where
  "resolve_part E infr index at_end deeper context part p =
     (case getitem E infr part (VInt index) of
        None \<Rightarrow> None
      | Some (Inl e) \<Rightarrow>
          if e = AttributeError \<or> e = IndexError then Some (([], Return), p)
          else Some (([], Raise e), p)
      | Some (Inr assigned) \<Rightarrow>
          if at_end then Some (([assigned], Continue), p)
          else if assigned = YES then Some (([], Return), p)
          else (case infr assigned context p of
                  None \<Rightarrow> None
                | Some (g, p1) \<Rightarrow>
                    (case deeper g context p1 of
                       None \<Rightarrow> None
                     | Some ((vs, err), p2) \<Rightarrow>
                         (case err of
                            None \<Rightarrow> Some ((vs, Continue), p2)
                          | Some e \<Rightarrow>
                              if is_InferenceError e then Some ((vs, Return), p2)
                              else Some ((vs, Raise e), p2)))))"

primrec resolve_asspart :: "env \<Rightarrow> infer_fn \<Rightarrow> int list \<Rightarrow> node gen \<Rightarrow> InferenceContext \<Rightarrow> path
    \<Rightarrow> node gen run" where
  "resolve_asspart E infr [] = (\<lambda>parts context p. Some (([], Some IndexError), p))"
| "resolve_asspart E infr (index # asspath) =
     (\<lambda>parts context p.
        for_loop (resolve_part E infr index (asspath = []) (resolve_asspart E infr asspath) context)
          parts p)"

definition assign_assigned_stmts :: "env \<Rightarrow> infer_fn \<Rightarrow> node \<Rightarrow> node \<Rightarrow> InferenceContext
    \<Rightarrow> int list option \<Rightarrow> path \<Rightarrow> node gen run" where
  "assign_assigned_stmts E infr self node context asspath p =
     (case self of
        Assign _ expr \<Rightarrow>
          (case asspath of
             None \<Rightarrow> Some (([expr], None), p)
           | Some [] \<Rightarrow> Some (([expr], None), p)
           | Some ap \<Rightarrow>
               (case infr expr context p of
                  None \<Rightarrow> None
                | Some (parts, p1) \<Rightarrow>
                    (case resolve_asspart E infr ap parts context p1 of
                       None \<Rightarrow> None
                     | Some ((vs, err), p2) \<Rightarrow>
                         if err = None \<and> vs = [] then Some (([], Some InferenceError), p2)
                         else Some ((vs, err), p2))))
      | _ \<Rightarrow> Some (([], Some AttributeError), p))"

section \<open>Reading results, and a module without names\<close>

definition yielded :: "node gen run \<Rightarrow> node list option" where
  "yielded r = map_option (\<lambda>res. fst (fst res)) r"

definition raised :: "node gen run \<Rightarrow> error option option" where
  "raised r = map_option (\<lambda>res. snd (fst res)) r"

text \<open>
  The tree of a module \<open>m\<close> in which no name is visible, no attribute is found and no
  module can be imported; a defining statement that is the frame of the lookup is asked
  for the looked-up name (a parameter of a function), any other one for itself.
\<close>

definition empty_scope :: env where
  "empty_scope =
     \<lparr>lookup = (\<lambda>n name. (Module ''m'', [])),
      stmt_infer_name = (\<lambda>stmt frame name. if stmt = frame then name else None),
      parent_frame = (\<lambda>n. Module ''m''),
      root = (\<lambda>n. Module ''m''),
      relative_name = (\<lambda>m name. name),
      import_module = (\<lambda>m name. Inl ASTNGBuildingException),
      real_name = (\<lambda>n name. name),
      getattr = (\<lambda>n name. Inl NotFoundError),
      node_eq = (\<lambda>n v. Inr (n = Const v))\<rparr>"

section \<open>Example trees\<close>

text \<open>
  \<open>def f(n): return f(n)\<close> in the module \<open>m\<close>: the name \<open>f\<close> is defined by the
  function, looked up from the module; the name \<open>n\<close> is its parameter, looked up from
  the function as frame.
\<close>

definition selfrec_call :: node where
  "selfrec_call = CallFunc 2 (Name 1 ''f'') [Name 3 ''n''] None None"

definition selfrec_def :: node where
  "selfrec_def =
     Function 0 (Arguments (Some [''n'']) [] None None) ''function'' False [selfrec_call]"

definition selfrec_scope :: env where
  "selfrec_scope = empty_scope\<lparr>lookup :=
     (\<lambda>n name. if name = ''f'' then (Module ''m'', [selfrec_def])
                else if name = ''n'' then (selfrec_def, [selfrec_def])
                else (Module ''m'', []))\<rparr>"

text \<open>A module in which the name \<open>SomeClass\<close> is defined by a class.\<close>

definition class_scope :: env where
  "class_scope = empty_scope\<lparr>lookup :=
     (\<lambda>n name. if name = ''SomeClass'' then (Module ''m'', [Class ''SomeClass''])
                else (Module ''m'', []))\<rparr>"

text \<open>
  The module \<open>m\<close> with a manager that finds every module: here \<open>import m\<close> inside \<open>m\<close>
  is the import of a module whose relative name is the name of the importing module.
\<close>

definition selfimport_scope :: env where
  "selfimport_scope = empty_scope\<lparr>import_module := (\<lambda>m name. Inr (Module name))\<rparr>"

text \<open>
  A function without argument-name information that has a default for \<open>k\<close> and the
  collector \<open>**kw\<close>.
\<close>

definition kwfunc :: node where
  "kwfunc =
     Function 0 (Arguments None [(''k'', Const (VInt 4))] None (Some ''kw'')) ''function'' False []"

section \<open>Properties\<close>

declare infer.simps [simp del]

lemmas infer_defs = infer.simps path_wrapper_def infer_end_def infer_default_def
  infer_function_def infer_name_def infer_stmts_def infer_callfunc_def infer_call_result_def
  infer_call_result_function_def infer_call_result_lambda_def infer_call_result_class_def
  for_loop_def flow_of_def clone_def copy_context_def fresh_context_def

lemmas binder_defs = infer_argument_def positional_steps_def from_variadic_def
  CallContext_init_def is_Keyword_def arguments_of_def func_type_def mularg_class_def
  default_value_def

lemmas binder_steps = infer_argument_def positional_steps_def from_variadic_def
  arguments_of_def func_type_def mularg_class_def default_value_def

lemma infer_Const: "infer (Suc n) E (Const v) c p = Some (([Const v], None), p)"
  by (simp add: infer.simps infer_end_def)

lemma infer_Tuple: "infer (Suc n) E (Tuple xs) c p = Some (([Tuple xs], None), p)"
  by (simp add: infer.simps infer_end_def)

lemma infer_List: "infer (Suc n) E (List xs) c p = Some (([List xs], None), p)"
  by (simp add: infer.simps infer_end_def)

lemma BIN_OP_IMPL_entries:
  "BIN_OP_IMPL ''<<'' = Some (py_xor, ''__lshift__'')"
  "BIN_OP_IMPL ''>>'' = Some (py_xor, ''__rshift__'')"
  "BIN_OP_IMPL ''+'' = Some (py_add, ''__add__'')"
  by (simp_all add: BIN_OP_IMPL_def)

lemma binop_consts:
  "BIN_OP_IMPL op = Some (impl, meth) \<Longrightarrow> impl a b = Inr v \<Longrightarrow>
   infer (Suc (Suc n)) E (BinOp i op (Const a) (Const b)) c [] =
     Some (([Const v], None), [(BinOp i op (Const a) (Const b), lookupname c)])"
  by (simp add: infer.simps path_wrapper_def infer_binop_def infer_binary_operator_def
        infer_end_def for_loop_def py_value_def const_factory_def flow_of_def)

lemma CallContext_init_positional:
  "\<not> is_Keyword x \<Longrightarrow>
   CallContext_init [x] sa dsa = \<lparr>args = [x], nargs = Map.empty, starargs = sa, dstarargs = dsa\<rparr>"
  by (cases x) (simp_all add: CallContext_init_def is_Keyword_def)

subsection \<open>Shift operators\<close>

text \<open>
  C1. The claim: a binary operation with operator \<open><<\<close> or \<open>>>\<close> on two integer
  literals infers to the literal of the true shift. The code does otherwise: the table
  \<open>BIN_OP_IMPL\<close> gives both shift operators the lambda of \<open>^\<close>, so for all integers
  \<open>a\<close> and \<open>b\<close> the inference of \<open>a << b\<close> and of \<open>a >> b\<close> is the single literal
  \<open>a XOR b\<close>. At \<open>1 << 2\<close> this is \<open>3\<close> where Python's shift gives \<open>4\<close>, and at
  \<open>8 >> 1\<close> it is \<open>9\<close> where Python's shift gives \<open>4\<close>.
\<close>

theorem shift_operators_are_xor:
  "infer (Suc (Suc n)) E (BinOp i ''<<'' (Const (VInt a)) (Const (VInt b))) c [] =
     Some (([Const (VInt (a XOR b))], None),
           [(BinOp i ''<<'' (Const (VInt a)) (Const (VInt b)), lookupname c)])
   \<and> infer (Suc (Suc n)) E (BinOp i ''>>'' (Const (VInt a)) (Const (VInt b))) c [] =
     Some (([Const (VInt (a XOR b))], None),
           [(BinOp i ''>>'' (Const (VInt a)) (Const (VInt b)), lookupname c)])
   \<and> py_xor (VInt 1) (VInt 2) = Inr (VInt 3)
   \<and> py_lshift (VInt 1) (VInt 2) = Inr (VInt 4)
   \<and> py_xor (VInt 8) (VInt 1) = Inr (VInt 9)
   \<and> py_rshift (VInt 8) (VInt 1) = Inr (VInt 4)"
  by (simp add: binop_consts BIN_OP_IMPL_entries int_op_def py_lshift_def py_rshift_def)

subsection \<open>The recursion guard\<close>

text \<open>
  C2. For a function whose body returns a call to itself, as \<open>def f(n): return f(n)\<close>,
  inferring the return expression \<open>f(n)\<close> terminates: with every recursion budget of at
  least three the inference ends, with no value and the failure \<open>InferenceError\<close>. The
  callee \<open>f\<close> is resolved to the function, whose return expression is the call under
  resolution: the pair of that call and the name under resolution is in the path, so
  this branch yields nothing (second conjunct) instead of recursing, and
  \<open>infer_callfunc\<close>, with nothing inferred, fails.
\<close>

theorem self_call_terminates:
  "call = CallFunc k (Name j fn) as sa kw \<Longrightarrow>
   fdef = Function i a t False [call] \<Longrightarrow>
   lookup E (Name j fn) fn = (frame, [fdef]) \<Longrightarrow>
   stmt_infer_name E fdef frame (Some fn) = None \<Longrightarrow>
   infer (Suc (Suc (Suc n))) E call c [] =
     Some (([], Some InferenceError),
           [(fdef, None), (Name j fn, lookupname c), (call, lookupname c)])
   \<and> infer (Suc n) E call (c\<lparr>callcontext := Some (CallContext_init as sa kw)\<rparr>)
        [(fdef, None), (Name j fn, lookupname c), (call, lookupname c)] =
     Some (([], None), [(fdef, None), (Name j fn, lookupname c), (call, lookupname c)])"
  by (simp add: infer_defs is_InferenceError_def)

text \<open>The same for \<open>def f(n): return f(n)\<close> itself, from a fresh context.\<close>

theorem self_call_terminates_witness:
  "lookup selfrec_scope (Name 1 ''f'') ''f'' = (Module ''m'', [selfrec_def])
   \<and> stmt_infer_name selfrec_scope selfrec_def (Module ''m'') (Some ''f'') = None
   \<and> infer 3 selfrec_scope selfrec_call fresh_context [] =
     Some (([], Some InferenceError),
           [(selfrec_def, None), (Name 1 ''f'', None), (selfrec_call, None)])
   \<and> infer 7 selfrec_scope selfrec_call fresh_context [] =
     Some (([], Some InferenceError),
           [(selfrec_def, None), (Name 1 ''f'', None), (selfrec_call, None)])"
  using self_call_terminates
    [where call = selfrec_call and k = 2 and j = 1 and fn = "''f''" and as = "[Name 3 ''n'']"
       and sa = None and kw = None and fdef = selfrec_def and i = 0
       and a = "Arguments (Some [''n'']) [] None None" and t = "''function''"
       and E = selfrec_scope and frame = "Module ''m''" and c = fresh_context and n = 0]
    self_call_terminates
    [where call = selfrec_call and k = 2 and j = 1 and fn = "''f''" and as = "[Name 3 ''n'']"
       and sa = None and kw = None and fdef = selfrec_def and i = 0
       and a = "Arguments (Some [''n'']) [] None None" and t = "''function''"
       and E = selfrec_scope and frame = "Module ''m''" and c = fresh_context and n = 4]
  by (simp add: numeral_3_eq_3 eval_nat_numeral selfrec_scope_def selfrec_call_def
        selfrec_def_def empty_scope_def fresh_context_def)

subsection \<open>Parameters of a called function\<close>

text \<open>
  C3, as stated, fails. For \<open>def f(a, b=1)\<close> with the call binding of \<open>f(x)\<close> active,
  inferring the parameter \<open>b\<close> yields the literal \<open>1\<close> alone: \<open>infer_function\<close> hands
  over to \<open>infer_argument\<close>, whose last step returns the inference of the default, and
  nothing appends \<open>YES\<close>.
\<close>

theorem parameter_default_under_call_counterexample:
  "yielded (infer 2 empty_scope
      (Function 0 (Arguments (Some [''a'', ''b'']) [(''b'', Const (VInt 1))] None None)
         ''function'' False [])
      (fresh_context\<lparr>lookupname := Some ''b'',
         callcontext := Some (CallContext_init [Name 5 ''x''] None None)\<rparr>) [])
     = Some [Const (VInt 1)]
   \<and> yielded (infer 2 empty_scope
      (Function 0 (Arguments (Some [''a'', ''b'']) [(''b'', Const (VInt 1))] None None)
         ''function'' False [])
      (fresh_context\<lparr>lookupname := Some ''b'',
         callcontext := Some (CallContext_init [Name 5 ''x''] None None)\<rparr>) [])
     \<noteq> Some [Const (VInt 1), YES]"
  by (simp add: numeral_2_eq_2 yielded_def infer_defs binder_defs)

text \<open>
  C3, amended. For \<open>def f(a, b=1)\<close> and one positional argument \<open>x\<close>: with the call
  binding of \<open>f(x)\<close> active, inferring \<open>b\<close> yields exactly the literal \<open>1\<close>; with no call
  binding active, inferring \<open>b\<close> yields the literal \<open>1\<close> followed by \<open>YES\<close>; with the call
  binding active, inferring \<open>a\<close> is exactly the inference of \<open>x\<close>, in the context whose
  call binding has been cleared.
\<close>

theorem parameter_inference_of_call:
  "\<not> is_Keyword x \<Longrightarrow>
   f = Function i (Arguments (Some [''a'', ''b'']) [(''b'', Const (VInt 1))] None None)
         ''function'' g rs \<Longrightarrow>
   infer (Suc (Suc n)) E f
       (c\<lparr>lookupname := Some ''b'', callcontext := Some (CallContext_init [x] None None)\<rparr>) []
     = Some (([Const (VInt 1)], None), [(f, Some ''b'')])
   \<and> infer (Suc (Suc n)) E f (c\<lparr>lookupname := Some ''b'', callcontext := None\<rparr>) []
     = Some (([Const (VInt 1), YES], None), [(f, Some ''b'')])
   \<and> infer (Suc n) E f
       (c\<lparr>lookupname := Some ''a'', callcontext := Some (CallContext_init [x] None None)\<rparr>) []
     = infer n E x (c\<lparr>lookupname := Some ''a'', callcontext := None\<rparr>) [(f, Some ''a'')]"
  by (simp add: infer.simps(2)[of "Suc n"] infer.simps(2)[of n] infer_Const path_wrapper_def
        infer_function_def clone_def copy_context_def CallContext_init_positional binder_steps)

text \<open>The same at \<open>f(9)\<close>, where the argument is a literal.\<close>

theorem parameter_inference_of_call_witness:
  "\<not> is_Keyword (Const (VInt 9))
   \<and> infer 2 empty_scope
       (Function 0 (Arguments (Some [''a'', ''b'']) [(''b'', Const (VInt 1))] None None)
          ''function'' False [])
       (fresh_context\<lparr>lookupname := Some ''b'',
          callcontext := Some (CallContext_init [Const (VInt 9)] None None)\<rparr>) []
     = Some (([Const (VInt 1)], None),
         [(Function 0 (Arguments (Some [''a'', ''b'']) [(''b'', Const (VInt 1))] None None)
             ''function'' False [], Some ''b'')])
   \<and> infer 2 empty_scope
       (Function 0 (Arguments (Some [''a'', ''b'']) [(''b'', Const (VInt 1))] None None)
          ''function'' False [])
       (fresh_context\<lparr>lookupname := Some ''a'',
          callcontext := Some (CallContext_init [Const (VInt 9)] None None)\<rparr>) []
     = Some (([Const (VInt 9)], None),
         [(Function 0 (Arguments (Some [''a'', ''b'']) [(''b'', Const (VInt 1))] None None)
             ''function'' False [], Some ''a'')])"
  using parameter_inference_of_call
    [where x = "Const (VInt 9)" and i = 0 and g = False and rs = "[]" and n = 0
       and E = empty_scope and c = fresh_context, OF _ refl]
    parameter_inference_of_call
    [where x = "Const (VInt 9)" and i = 0 and g = False and rs = "[]" and n = 1
       and E = empty_scope and c = fresh_context, OF _ refl]
  by (simp add: numeral_2_eq_2 is_Keyword_def infer_Const fresh_context_def)

subsection \<open>Binary operations\<close>

text \<open>
  C4, as stated, fails in its second half. With \<open>g\<close> visible in no scope, the inference
  of \<open>2 + g()\<close> yields no value and ends with \<open>UnresolvableName\<close>: \<open>infer_name\<close> raises
  it, and neither \<open>infer_callfunc\<close> nor \<open>_infer_binary_operator\<close> iterates its operand
  inside a \<open>try\<close>.
\<close>

theorem sum_with_unresolvable_call_counterexample:
  "infer 3 empty_scope
      (BinOp 0 ''+'' (Const (VInt 2)) (CallFunc 1 (Name 2 ''g'') [] None None)) fresh_context []
     = Some (([], Some UnresolvableName),
          [(Name 2 ''g'', None), (CallFunc 1 (Name 2 ''g'') [] None None, None),
           (BinOp 0 ''+'' (Const (VInt 2)) (CallFunc 1 (Name 2 ''g'') [] None None), None)])
   \<and> yielded (infer 3 empty_scope
      (BinOp 0 ''+'' (Const (VInt 2)) (CallFunc 1 (Name 2 ''g'') [] None None)) fresh_context [])
     \<noteq> Some [YES]"
  by (simp add: numeral_3_eq_3 yielded_def infer_defs infer_binop_def infer_binary_operator_def
        BIN_OP_IMPL_entries py_value_def empty_scope_def)

text \<open>
  C4, amended. Inferring \<open>2 + 3\<close> yields the single literal \<open>5\<close>; inferring \<open>2 + g()\<close>,
  where the lookup of \<open>g\<close> finds no defining statement, yields no value and fails with
  \<open>UnresolvableName\<close>, a subclass of the generic inference failure, whatever the
  arguments of the call.
\<close>

theorem sum_of_literals_and_unresolvable_call:
  "snd (lookup E (Name j g) g) = [] \<Longrightarrow>
   infer (Suc (Suc n)) E (BinOp i ''+'' (Const (VInt 2)) (Const (VInt 3))) c [] =
     Some (([Const (VInt 5)], None), [(BinOp i ''+'' (Const (VInt 2)) (Const (VInt 3)), lookupname c)])
   \<and> infer (Suc (Suc (Suc n))) E
        (BinOp i ''+'' (Const (VInt 2)) (CallFunc k (Name j g) as sa kw)) c [] =
     Some (([], Some UnresolvableName),
       [(Name j g, lookupname c), (CallFunc k (Name j g) as sa kw, lookupname c),
        (BinOp i ''+'' (Const (VInt 2)) (CallFunc k (Name j g) as sa kw), lookupname c)])
   \<and> is_InferenceError UnresolvableName"
proof -
  assume unresolvable: "snd (lookup E (Name j g) g) = []"
  have sum: "infer (Suc (Suc n)) E (BinOp i ''+'' (Const (VInt 2)) (Const (VInt 3))) c [] =
     Some (([Const (VInt 5)], None), [(BinOp i ''+'' (Const (VInt 2)) (Const (VInt 3)), lookupname c)])"
    by (rule binop_consts [OF BIN_OP_IMPL_entries(3)]) (simp add: int_op_def)
  have call: "infer (Suc (Suc (Suc n))) E
        (BinOp i ''+'' (Const (VInt 2)) (CallFunc k (Name j g) as sa kw)) c [] =
     Some (([], Some UnresolvableName),
       [(Name j g, lookupname c), (CallFunc k (Name j g) as sa kw, lookupname c),
        (BinOp i ''+'' (Const (VInt 2)) (CallFunc k (Name j g) as sa kw), lookupname c)])"
    using unresolvable
    by (cases "lookup E (Name j g) g")
       (simp add: infer.simps infer_end_def BIN_OP_IMPL_entries Let_def
          path_wrapper_def infer_binop_def infer_binary_operator_def py_value_def
          infer_callfunc_def infer_name_def for_loop_def flow_of_def clone_def)
  from sum call show ?thesis by (simp add: is_InferenceError_def)
qed

theorem sum_of_literals_and_unresolvable_call_witness:
  "snd (lookup empty_scope (Name 2 ''g'') ''g'') = []
   \<and> infer 2 empty_scope (BinOp 0 ''+'' (Const (VInt 2)) (Const (VInt 3))) fresh_context [] =
     Some (([Const (VInt 5)], None), [(BinOp 0 ''+'' (Const (VInt 2)) (Const (VInt 3)), None)])
   \<and> raised (infer 3 empty_scope
        (BinOp 0 ''+'' (Const (VInt 2)) (CallFunc 1 (Name 2 ''g'') [] None None))
        fresh_context []) = Some (Some UnresolvableName)"
  using sum_of_literals_and_unresolvable_call
    [where E = empty_scope and j = 2 and g = "''g''" and n = 0 and i = 0 and c = fresh_context
       and k = 1 and as = "[]" and sa = None and kw = None]
  by (simp add: numeral_2_eq_2 numeral_3_eq_3 raised_def empty_scope_def fresh_context_def)

subsection \<open>Subscripts of list and tuple literals\<close>

lemma subscript_const_index:
  "infer (Suc (Suc n)) E (Subscript k base [Const v]) c [] =
     (case getitem E (infer (Suc n) E) base v of
        None \<Rightarrow> None
      | Some (Inl e) \<Rightarrow>
          if e = AttributeError
            then Some (([], Some InferenceError), [(Subscript k base [Const v], lookupname c)])
          else if e = IndexError
            then Some (([YES], None), [(Subscript k base [Const v], lookupname c)])
          else Some (([], Some e), [(Subscript k base [Const v], lookupname c)])
      | Some (Inr assigned) \<Rightarrow>
          infer (Suc n) E assigned c [(Subscript k base [Const v], lookupname c)])"
  by (simp add: infer.simps(2)[of "Suc n"] infer_Const path_wrapper_def infer_subscript_def)

lemma subscript_not_single:
  "length subs \<noteq> 1 \<Longrightarrow>
   infer (Suc n) E (Subscript k base subs) c [] =
     Some (([], Some InferenceError), [(Subscript k base subs, lookupname c)])"
  by (simp add: infer.simps path_wrapper_def infer_subscript_def)

lemma getitem_List: "getitem E infr (List elts) v = Some (tl_getitem elts v)"
  by (simp add: getitem_def)

lemma getitem_Tuple: "getitem E infr (Tuple elts) v = Some (tl_getitem elts v)"
  by (simp add: getitem_def)

lemma tl_getitem_nonneg:
  "0 \<le> i \<Longrightarrow> i < int (length elts) \<Longrightarrow> tl_getitem elts (VInt i) = Inr (elts ! nat i)"
  by (simp add: tl_getitem_def)

lemma tl_getitem_neg:
  "i < 0 \<Longrightarrow> - int (length elts) \<le> i \<Longrightarrow>
   tl_getitem elts (VInt i) = Inr (elts ! nat (int (length elts) + i))"
  by (simp add: tl_getitem_def)

lemma tl_getitem_out_of_range:
  "int (length elts) \<le> i \<or> i < - int (length elts) \<Longrightarrow> tl_getitem elts (VInt i) = Inl IndexError"
  by (auto simp add: tl_getitem_def)

text \<open>
  C5. A list literal subscripted by one constant integer index: when the index is in
  range, the inference of the subscript is the inference of the element at that
  position, which for a literal element is that element alone; when the index is out of
  range, it is \<open>YES\<close> alone, with no failure; and a subscript with a number of indices
  other than one fails with \<open>InferenceError\<close>.
\<close>

theorem subscript_of_list_literal:
  "(0 \<le> i \<and> i < int (length elts) \<longrightarrow>
      infer (Suc (Suc n)) E (Subscript k (List elts) [Const (VInt i)]) c [] =
        infer (Suc n) E (elts ! nat i) c [(Subscript k (List elts) [Const (VInt i)], lookupname c)])
   \<and> (0 \<le> i \<and> i < int (length elts) \<and> elts ! nat i = Const v \<longrightarrow>
      infer (Suc (Suc n)) E (Subscript k (List elts) [Const (VInt i)]) c [] =
        Some (([Const v], None), [(Subscript k (List elts) [Const (VInt i)], lookupname c)]))
   \<and> (int (length elts) \<le> i \<or> i < - int (length elts) \<longrightarrow>
      infer (Suc (Suc n)) E (Subscript k (List elts) [Const (VInt i)]) c [] =
        Some (([YES], None), [(Subscript k (List elts) [Const (VInt i)], lookupname c)]))
   \<and> (length subs \<noteq> 1 \<longrightarrow>
      infer (Suc n) E (Subscript k (List elts) subs) c [] =
        Some (([], Some InferenceError), [(Subscript k (List elts) subs, lookupname c)]))"
  by (simp add: subscript_const_index subscript_not_single getitem_List tl_getitem_nonneg
        tl_getitem_out_of_range infer_Const)

text \<open>\<open>[10,20,30][1]\<close> infers to \<open>20\<close>, \<open>[10,20,30][5]\<close> to \<open>YES\<close>, and \<open>[10,20,30][0:2]\<close> fails.\<close>

theorem subscript_of_list_literal_witness:
  "infer 2 empty_scope
      (Subscript 0 (List [Const (VInt 10), Const (VInt 20), Const (VInt 30)]) [Const (VInt 1)])
      fresh_context []
     = Some (([Const (VInt 20)], None),
         [(Subscript 0 (List [Const (VInt 10), Const (VInt 20), Const (VInt 30)])
             [Const (VInt 1)], None)])
   \<and> infer 2 empty_scope
      (Subscript 0 (List [Const (VInt 10), Const (VInt 20), Const (VInt 30)]) [Const (VInt 5)])
      fresh_context []
     = Some (([YES], None),
         [(Subscript 0 (List [Const (VInt 10), Const (VInt 20), Const (VInt 30)])
             [Const (VInt 5)], None)])
   \<and> infer 1 empty_scope
      (Subscript 0 (List [Const (VInt 10), Const (VInt 20), Const (VInt 30)])
         [Const (VInt 0), Const (VInt 2)])
      fresh_context []
     = Some (([], Some InferenceError),
         [(Subscript 0 (List [Const (VInt 10), Const (VInt 20), Const (VInt 30)])
             [Const (VInt 0), Const (VInt 2)], None)])"
  using subscript_of_list_literal
      [of 1 "[Const (VInt 10), Const (VInt 20), Const (VInt 30)]" 0 empty_scope 0 fresh_context
          "VInt 20" "[Const (VInt 0), Const (VInt 2)]"]
    subscript_of_list_literal
      [of 5 "[Const (VInt 10), Const (VInt 20), Const (VInt 30)]" 0 empty_scope 0 fresh_context
          "VInt 20" "[Const (VInt 0), Const (VInt 2)]"]
  by (simp add: numeral_2_eq_2 fresh_context_def infer_Const)

text \<open>
  C10. A list or tuple literal subscripted by one constant negative index whose
  magnitude does not exceed the number of elements: the inference of the subscript is
  the inference of the element counted from the end, which for a literal element is that
  element alone, neither \<open>YES\<close> nor a failure. The index \<open>-1\<close> written as the unary minus
  of the literal \<open>1\<close> gives the same: \<open>(1,2,3)[-1]\<close> infers to the literal \<open>3\<close>.
\<close>

theorem negative_index_counts_from_end:
  "(i < 0 \<and> - int (length elts) \<le> i \<longrightarrow>
     infer (Suc (Suc n)) E (Subscript k (Tuple elts) [Const (VInt i)]) c [] =
       infer (Suc n) E (elts ! nat (int (length elts) + i)) c
         [(Subscript k (Tuple elts) [Const (VInt i)], lookupname c)]
     \<and> infer (Suc (Suc n)) E (Subscript k (List elts) [Const (VInt i)]) c [] =
       infer (Suc n) E (elts ! nat (int (length elts) + i)) c
         [(Subscript k (List elts) [Const (VInt i)], lookupname c)]
     \<and> (elts ! nat (int (length elts) + i) = Const v \<longrightarrow>
          infer (Suc (Suc n)) E (Subscript k (Tuple elts) [Const (VInt i)]) c [] =
            Some (([Const v], None), [(Subscript k (Tuple elts) [Const (VInt i)], lookupname c)])
          \<and> infer (Suc (Suc n)) E (Subscript k (List elts) [Const (VInt i)]) c [] =
            Some (([Const v], None), [(Subscript k (List elts) [Const (VInt i)], lookupname c)])))
   \<and> infer (Suc (Suc (Suc n))) E
        (Subscript k (Tuple [Const (VInt 1), Const (VInt 2), Const (VInt 3)])
           [UnaryOp j ''-'' (Const (VInt 1))]) c [] =
       Some (([Const (VInt 3)], None),
         [(UnaryOp j ''-'' (Const (VInt 1)), lookupname c),
          (Subscript k (Tuple [Const (VInt 1), Const (VInt 2), Const (VInt 3)])
             [UnaryOp j ''-'' (Const (VInt 1))], lookupname c)])"
proof -
  have unary: "infer (Suc (Suc (Suc n))) E
        (Subscript k (Tuple [Const (VInt 1), Const (VInt 2), Const (VInt 3)])
           [UnaryOp j ''-'' (Const (VInt 1))]) c [] =
       Some (([Const (VInt 3)], None),
         [(UnaryOp j ''-'' (Const (VInt 1)), lookupname c),
          (Subscript k (Tuple [Const (VInt 1), Const (VInt 2), Const (VInt 3)])
             [UnaryOp j ''-'' (Const (VInt 1))], lookupname c)])"
    by (simp add: infer.simps infer_end_def path_wrapper_def infer_subscript_def
          infer_unaryop_def infer_unary_operator_def UNARY_OP_IMPL_def for_loop_def
          py_value_def const_factory_def getitem_def tl_getitem_def)
  then show ?thesis
    by (simp add: subscript_const_index getitem_List getitem_Tuple tl_getitem_neg infer_Const)
qed

theorem negative_index_counts_from_end_witness:
  "infer 2 empty_scope
      (Subscript 0 (Tuple [Const (VInt 1), Const (VInt 2), Const (VInt 3)]) [Const (VInt (- 1))])
      fresh_context []
     = Some (([Const (VInt 3)], None),
         [(Subscript 0 (Tuple [Const (VInt 1), Const (VInt 2), Const (VInt 3)])
             [Const (VInt (- 1))], None)])
   \<and> infer 2 empty_scope
      (Subscript 0 (List [Const (VInt 1), Const (VInt 2), Const (VInt 3)]) [Const (VInt (- 3))])
      fresh_context []
     = Some (([Const (VInt 1)], None),
         [(Subscript 0 (List [Const (VInt 1), Const (VInt 2), Const (VInt 3)])
             [Const (VInt (- 3))], None)])"
  using negative_index_counts_from_end
      [of "- 1" "[Const (VInt 1), Const (VInt 2), Const (VInt 3)]" 0 empty_scope 0 fresh_context
          "VInt 3"]
    negative_index_counts_from_end
      [of "- 3" "[Const (VInt 1), Const (VInt 2), Const (VInt 3)]" 0 empty_scope 0 fresh_context
          "VInt 1"]
  by (simp add: numeral_2_eq_2 fresh_context_def infer_Const)

subsection \<open>Destructuring assignments\<close>

lemma for_items_halt:
  "(\<And>q. body bad q = Some (([], Return), q)) \<Longrightarrow>
   for_items body (pre @ bad # rest) p =
     map_option (\<lambda>((ys, fl), p'). ((ys, case fl of Continue \<Rightarrow> Return | _ \<Rightarrow> fl), p'))
       (for_items body pre p)"
proof (induction pre arbitrary: p)
  case Nil
  then show ?case by simp
next
  case (Cons x pre)
  show ?case
  proof (cases "body x p")
    case None
    then show ?thesis by simp
  next
    case (Some r)
    obtain ys fl p' where r: "r = ((ys, fl), p')" by (metis prod.exhaust)
    show ?thesis
    proof (cases fl)
      case Continue
      with Some r Cons.IH [OF Cons.prems, of p'] show ?thesis
        by (cases "for_items body pre p'") (auto split: flow.splits)
    next
      case Return
      with Some r show ?thesis by simp
    next
      case (Raise e)
      with Some r show ?thesis by simp
    qed
  qed
qed

lemma for_loop_halt:
  assumes "\<And>q. body bad q = Some (([], Return), q)"
  shows "for_loop body (pre @ bad # rest, err) p = for_loop body (pre, None) p"
  by (cases "for_items body pre p")
     (auto simp add: for_loop_def for_items_halt [of body bad, OF assms] split: flow.splits)

lemma resolve_part_access_fails:
  "getitem E infr bad (VInt index) = Some (Inl e) \<Longrightarrow> e = AttributeError \<or> e = IndexError \<Longrightarrow>
   resolve_part E infr index at_end deeper c bad q = Some (([], Return), q)"
  by (auto simp add: resolve_part_def)

text \<open>
  C6, as stated, fails in its second part. With the candidates \<open>1\<close> and \<open>(5, 6)\<close> and
  the path \<open>[1]\<close>, indexed access fails on the first candidate and the resolution ends
  there with nothing yielded: the second candidate, which alone resolves to the literal
  \<open>6\<close>, is not tried. The handler of the failed access is \<open>return\<close>.
\<close>

theorem later_candidates_not_tried_counterexample:
  "yielded (resolve_asspart empty_scope (infer 1 empty_scope) [1]
      ([Const (VInt 1), Tuple [Const (VInt 5), Const (VInt 6)]], None) fresh_context [])
     = Some []
   \<and> yielded (resolve_asspart empty_scope (infer 1 empty_scope) [1]
      ([Tuple [Const (VInt 5), Const (VInt 6)]], None) fresh_context [])
     = Some [Const (VInt 6)]"
  by (simp add: yielded_def for_loop_def resolve_part_def getitem_def tl_getitem_def)

text \<open>
  C6, amended. For \<open>(a, (b, c)) = (1, (2, 3))\<close>, resolving the target \<open>c\<close> with the path
  \<open>[1, 1]\<close> yields exactly the literal \<open>3\<close>, not inferred. During path resolution, the
  first candidate on which indexed access fails ends the resolution: what the
  candidates before it gave is kept, and the candidates after it are not tried. Resolving
  a target whose path steps into a non-container fails with \<open>InferenceError\<close>, as for a
  literal right-hand side with any path, and for \<open>(a, (b, c)) = (1, 2)\<close> with the path
  \<open>[1, 1]\<close>.
\<close>

theorem nested_target_resolution:
  "assign_assigned_stmts E (infer (Suc n) E)
       (Assign ts (Tuple [Const (VInt 1), Tuple [Const (VInt 2), Const (VInt 3)]]))
       target c (Some [1, 1]) p
     = Some (([Const (VInt 3)], None), p)
   \<and> (getitem E infr bad (VInt index) = Some (Inl e) \<and> (e = AttributeError \<or> e = IndexError)
        \<longrightarrow> resolve_asspart E infr (index # asspath) (pre @ bad # rest, err) c p
            = resolve_asspart E infr (index # asspath) (pre, None) c p)
   \<and> assign_assigned_stmts E (infer (Suc n) E) (Assign ts (Const v)) target c
        (Some (index # asspath)) p
     = Some (([], Some InferenceError), p)
   \<and> assign_assigned_stmts E (infer (Suc n) E)
       (Assign ts (Tuple [Const (VInt 1), Const (VInt 2)])) target c (Some [1, 1]) p
     = Some (([], Some InferenceError), p)"
proof -
  have a: "assign_assigned_stmts E (infer (Suc n) E)
       (Assign ts (Tuple [Const (VInt 1), Tuple [Const (VInt 2), Const (VInt 3)]]))
       target c (Some [1, 1]) p
     = Some (([Const (VInt 3)], None), p)"
    by (simp add: assign_assigned_stmts_def infer_Tuple for_loop_def resolve_part_def
          getitem_def tl_getitem_def)
  have b: "getitem E infr bad (VInt index) = Some (Inl e) \<and> (e = AttributeError \<or> e = IndexError)
        \<longrightarrow> resolve_asspart E infr (index # asspath) (pre @ bad # rest, err) c p
            = resolve_asspart E infr (index # asspath) (pre, None) c p"
  proof
    assume h: "getitem E infr bad (VInt index) = Some (Inl e) \<and> (e = AttributeError \<or> e = IndexError)"
    have "\<And>q. resolve_part E infr index (asspath = []) (resolve_asspart E infr asspath) c bad q
            = Some (([], Return), q)"
      using h resolve_part_access_fails [of E infr bad index e] by blast
    then show "resolve_asspart E infr (index # asspath) (pre @ bad # rest, err) c p
            = resolve_asspart E infr (index # asspath) (pre, None) c p"
      by (simp add: for_loop_halt)
  qed
  have c: "assign_assigned_stmts E (infer (Suc n) E) (Assign ts (Const v)) target c
        (Some (index # asspath)) p
     = Some (([], Some InferenceError), p)"
    by (simp add: assign_assigned_stmts_def infer_Const for_loop_def resolve_part_def
          getitem_def)
  have d: "assign_assigned_stmts E (infer (Suc n) E)
       (Assign ts (Tuple [Const (VInt 1), Const (VInt 2)])) target c (Some [1, 1]) p
     = Some (([], Some InferenceError), p)"
    by (simp add: assign_assigned_stmts_def infer_Tuple infer_Const for_loop_def
          resolve_part_def getitem_def tl_getitem_def)
  from a b c d show ?thesis by blast
qed

text \<open>
  With the candidates \<open>(5, 6)\<close>, \<open>1\<close> and \<open>(7, 8)\<close> and the path \<open>[1]\<close>: the literal \<open>6\<close>
  of the first candidate is kept, and the third candidate is not tried.
\<close>

theorem nested_target_resolution_witness:
  "getitem empty_scope (infer 1 empty_scope) (Const (VInt 1)) (VInt 1) = Some (Inl AttributeError)
   \<and> resolve_asspart empty_scope (infer 1 empty_scope) [1]
        ([Tuple [Const (VInt 5), Const (VInt 6)], Const (VInt 1),
          Tuple [Const (VInt 7), Const (VInt 8)]], None) fresh_context []
     = Some (([Const (VInt 6)], None), [])"
proof -
  have g: "getitem empty_scope (infer 1 empty_scope) (Const (VInt 1)) (VInt 1)
             = Some (Inl AttributeError)"
    by (simp add: getitem_def)
  have "resolve_asspart empty_scope (infer 1 empty_scope) [1]
          ([Tuple [Const (VInt 5), Const (VInt 6)]] @ Const (VInt 1)
             # [Tuple [Const (VInt 7), Const (VInt 8)]], None) fresh_context []
        = resolve_asspart empty_scope (infer 1 empty_scope) [1]
          ([Tuple [Const (VInt 5), Const (VInt 6)]], None) fresh_context []"
    using g nested_target_resolution [of empty_scope 0 "[]" YES fresh_context "[]"
        "infer 1 empty_scope" "Const (VInt 1)" 1 AttributeError "[]"
        "[Tuple [Const (VInt 5), Const (VInt 6)]]"
        "[Tuple [Const (VInt 7), Const (VInt 8)]]" None "VInt 0"]
    by simp
  then show ?thesis
    using g by (simp add: for_loop_def resolve_part_def getitem_def tl_getitem_def)
qed

subsection \<open>Calling a class\<close>

text \<open>
  C7. Resolving the result of calling a class yields exactly one value, the \<open>Instance\<close>
  of that class: \<open>infer_call_result_class\<close> reads nothing of the class node, so its body
  and its initializer play no part. The same holds through the dispatch of
  \<open>infer_call_result\<close>, and for a call whose callee infers to the class alone.
\<close>

theorem class_call_gives_one_instance:
  "infer_call_result_class self caller c p = Some (([Instance self], None), p)
   \<and> infer_call_result infr (Class name) caller c p = Some (([Instance (Class name)], None), p)
   \<and> (infr func (c\<lparr>callcontext := Some (CallContext_init as sa kw)\<rparr>) p
          = Some (([Class name], None), p0)
        \<longrightarrow> infer_callfunc E infr (CallFunc i func as sa kw) c p
          = Some (([Instance (Class name)], None), p0))"
  by (simp add: infer_call_result_class_def infer_call_result_def infer_callfunc_def
        for_loop_def clone_def)

text \<open>\<open>SomeClass()\<close>, where the name \<open>SomeClass\<close> is defined by a class.\<close>

theorem class_call_gives_one_instance_witness:
  "infer 2 class_scope (Name 1 ''SomeClass'')
        (fresh_context\<lparr>callcontext := Some (CallContext_init [] None None)\<rparr>) []
      = Some (([Class ''SomeClass''], None), [(Name 1 ''SomeClass'', None)])
   \<and> infer_callfunc class_scope (infer 2 class_scope)
        (CallFunc 0 (Name 1 ''SomeClass'') [] None None) fresh_context []
      = Some (([Instance (Class ''SomeClass'')], None), [(Name 1 ''SomeClass'', None)])"
proof -
  have h: "infer 2 class_scope (Name 1 ''SomeClass'')
        (fresh_context\<lparr>callcontext := Some (CallContext_init [] None None)\<rparr>) []
      = Some (([Class ''SomeClass''], None), [(Name 1 ''SomeClass'', None)])"
    by (simp add: numeral_2_eq_2 infer_defs class_scope_def empty_scope_def)
  from h class_call_gives_one_instance
    [of "Class ''SomeClass''" YES fresh_context "[]" "infer 2 class_scope" "''SomeClass''"
        "Name 1 ''SomeClass''" "[]" None None "[(Name 1 ''SomeClass'', None)]" class_scope 0]
  show ?thesis by simp
qed

subsection \<open>Importing the own package\<close>

text \<open>
  C8, as stated, fails. The import of a module whose relative name is the name of the
  importing module fails with \<open>InferenceError\<close> itself, the generic failure, not with a
  subclass of it; inference.py has UnresolvableName as the only subclass it raises. The
  import of another module, \<open>os\<close>, gives that module.
\<close>

theorem self_import_counterexample:
  "infer 1 selfimport_scope (Import 0 [(''m'', None)]) (fresh_context\<lparr>lookupname := Some ''m''\<rparr>) []
     = Some (([], Some InferenceError), [(Import 0 [(''m'', None)], Some ''m'')])
   \<and> \<not> proper_subclass_of_InferenceError InferenceError
   \<and> infer 1 selfimport_scope (Import 0 [(''os'', None)]) (fresh_context\<lparr>lookupname := Some ''os''\<rparr>) []
     = Some (([Module ''os''], None), [(Import 0 [(''os'', None)], Some ''os'')])"
  by (simp add: infer.simps path_wrapper_def infer_import_def imported_module_astng_def
        name_of_module_def selfimport_scope_def empty_scope_def fresh_context_def
        proper_subclass_of_InferenceError_def)

text \<open>
  C8, amended. When the relative name of the imported module is the name of the
  importing module, \<open>_imported_module_astng\<close> fails with the generic \<open>InferenceError\<close>,
  and so does the inference of the \<open>Import\<close> node for that name. It does not recurse:
  the result is the same whatever \<open>import_module\<close> would do, as the module is not
  imported at all.
\<close>

theorem self_import_fails:
  "name_of_module (root E node) = Some (relative_name E (root E node) modname) \<Longrightarrow>
   imported_module_astng E node modname = Inl InferenceError
   \<and> imported_module_astng (E\<lparr>import_module := f\<rparr>) node modname = Inl InferenceError
   \<and> (node = Import i names \<and> lookupname c = Some name \<and> real_name E node name = modname
        \<longrightarrow> infer (Suc n) E node c [] = Some (([], Some InferenceError), [(node, Some name)]))"
  by (auto simp add: infer.simps path_wrapper_def infer_import_def imported_module_astng_def)

theorem self_import_fails_witness:
  "name_of_module (root selfimport_scope (Import 0 [(''m'', None)]))
     = Some (relative_name selfimport_scope (root selfimport_scope (Import 0 [(''m'', None)])) ''m'')
   \<and> imported_module_astng selfimport_scope (Import 0 [(''m'', None)]) ''m'' = Inl InferenceError
   \<and> import_module selfimport_scope (Module ''m'') ''m'' = Inr (Module ''m'')"
  using self_import_fails [of selfimport_scope "Import 0 [(''m'', None)]" "''m''"]
  by (simp add: selfimport_scope_def empty_scope_def name_of_module_def)

subsection \<open>A callee without parameter names\<close>

lemma chain_its_single: "chain_its infr [Infer v] c p = infr v c p"
  by (cases "infr v c p") (auto split: option.splits prod.splits)

lemma from_variadic_dict_hit:
  "infr src c p = Some (([Dict [key, v]], None), p1) \<Longrightarrow>
   infr key fresh_context [] = Some (([kc], None), q) \<Longrightarrow> kc \<noteq> YES \<Longrightarrow>
   node_eq E kc index = Inr True \<Longrightarrow> \<not> raises_at_call v \<Longrightarrow>
   from_variadic E infr src index c p = Done (infr v c p1)"
  by (simp add: from_variadic_def getitem_def chain_its_single del: chain_its.simps)

lemma from_variadic_unknown:
  "infr src c p = Some (([YES], None), p1) \<Longrightarrow>
   from_variadic E infr src index c p = Done (Some (([YES], None), p1))"
  by (simp add: from_variadic_def)

text \<open>
  C9, as stated, fails. For a callee whose \<open>argnames\<close> is \<open>None\<close>, the call binder asked
  for the parameter \<open>k\<close> of the call \<open>f(k=7)\<close> yields the literal \<open>7\<close>, found among the
  keyword arguments, not \<open>YES\<close>; and asked for \<open>k\<close> of the call \<open>f()\<close> it fails with
  \<open>InferenceError\<close> and yields no \<open>YES\<close>.
\<close>

theorem binder_without_argnames_counterexample:
  "yielded (infer 2 empty_scope (Function 0 (Arguments None [] None None) ''function'' False [])
      (fresh_context\<lparr>lookupname := Some ''k'',
         callcontext := Some (CallContext_init [Keyword ''k'' (Const (VInt 7))] None None)\<rparr>) [])
     = Some [Const (VInt 7)]
   \<and> infer 1 empty_scope (Function 0 (Arguments None [] None None) ''function'' False [])
      (fresh_context\<lparr>lookupname := Some ''k'',
         callcontext := Some (CallContext_init [] None None)\<rparr>) []
     = Some (([], Some InferenceError),
         [(Function 0 (Arguments None [] None None) ''function'' False [], Some ''k'')])"
  by (simp add: numeral_2_eq_2 yielded_def infer_defs binder_defs)

text \<open>
  C9, amended. For a callee without argument-name information: when a parameter is
  inferred with no call binding active, \<open>infer_function\<close> yields \<open>YES\<close> at once. With a
  call binding, the binder first uses the keyword argument of that name, if there is
  one. Otherwise it skips the positional and the variadic-positional steps only (its
  result does not depend on the positional arguments or on \<open>starargs\<close>) and goes on:
  what the variadic-keyword source gives for the name is returned (the inference of the
  value under that key of a dictionary literal; \<open>YES\<close> for an unknown source); when
  there is no such source, or it gives nothing, a collector of that name gives its
  placeholder, else a default gives its inference, else the binder fails with
  \<open>InferenceError\<close>.
\<close>

theorem binder_without_argnames:
  "argnames (arguments_of f) = None \<Longrightarrow>
   (lookupname c = Some name \<and> callcontext c = None
      \<longrightarrow> infer_function E infr f c p = Some (([YES], None), p))
   \<and> (nargs cc name = Some expr \<longrightarrow> infer_argument E infr cc f name c p = infr expr c p)
   \<and> infer_argument E infr (cc\<lparr>args := as, starargs := sa\<rparr>) f name c p
       = infer_argument E infr cc f name c p
   \<and> (nargs cc name = None
        \<and> (case dstarargs cc of
              None \<Rightarrow> Pass p
            | Some src \<Rightarrow> from_variadic E infr src (VStr name) c p) = Done r
      \<longrightarrow> infer_argument E infr cc f name c p = r)
   \<and> (nargs cc name = None \<and> dstarargs cc = Some src
        \<and> infr src c p = Some (([Dict [key, v]], None), p1)
        \<and> infr key fresh_context [] = Some (([kc], None), q) \<and> kc \<noteq> YES
        \<and> node_eq E kc (VStr name) = Inr True \<and> \<not> raises_at_call v
      \<longrightarrow> infer_argument E infr cc f name c p = infr v c p1)
   \<and> (nargs cc name = None \<and> dstarargs cc = Some src
        \<and> infr src c p = Some (([YES], None), p1)
      \<longrightarrow> infer_argument E infr cc f name c p = Some (([YES], None), p1))
   \<and> (nargs cc name = None
        \<and> (case dstarargs cc of
              None \<Rightarrow> Pass p
            | Some src \<Rightarrow> from_variadic E infr src (VStr name) c p) = Pass p2
      \<longrightarrow> (mularg_class f name = Some mularg
             \<longrightarrow> infer_argument E infr cc f name c p = Some (([mularg], None), p2))
          \<and> (mularg_class f name = None \<and> default_value f name = Inr d
             \<longrightarrow> infer_argument E infr cc f name c p = infr d c p2)
          \<and> (mularg_class f name = None \<and> default_value f name = Inl err
             \<longrightarrow> infer_argument E infr cc f name c p = Some (([], Some InferenceError), p2)))"
proof -
  assume unknown: "argnames (arguments_of f) = None"
  have skip: "\<And>self. positional_steps E infr self f name c p = Pass p"
    using unknown by (simp add: positional_steps_def)
  have a: "lookupname c = Some name \<and> callcontext c = None
      \<longrightarrow> infer_function E infr f c p = Some (([YES], None), p)"
    using unknown by (simp add: infer_function_def)
  have b: "nargs cc name = Some expr \<longrightarrow> infer_argument E infr cc f name c p = infr expr c p"
    by (simp add: infer_argument_def)
  have c: "infer_argument E infr (cc\<lparr>args := as, starargs := sa\<rparr>) f name c p
       = infer_argument E infr cc f name c p"
    by (simp add: infer_argument_def skip split: option.split)
  have d: "nargs cc name = None
        \<and> (case dstarargs cc of
              None \<Rightarrow> Pass p
            | Some src \<Rightarrow> from_variadic E infr src (VStr name) c p) = Done r
      \<longrightarrow> infer_argument E infr cc f name c p = r"
    by (simp add: infer_argument_def skip)
  have e: "nargs cc name = None \<and> dstarargs cc = Some src
        \<and> infr src c p = Some (([Dict [key, v]], None), p1)
        \<and> infr key fresh_context [] = Some (([kc], None), q) \<and> kc \<noteq> YES
        \<and> node_eq E kc (VStr name) = Inr True \<and> \<not> raises_at_call v
      \<longrightarrow> infer_argument E infr cc f name c p = infr v c p1"
    by (simp add: infer_argument_def skip from_variadic_dict_hit)
  have g: "nargs cc name = None \<and> dstarargs cc = Some src
        \<and> infr src c p = Some (([YES], None), p1)
      \<longrightarrow> infer_argument E infr cc f name c p = Some (([YES], None), p1)"
    by (simp add: infer_argument_def skip from_variadic_unknown)
  have h: "nargs cc name = None
        \<and> (case dstarargs cc of
              None \<Rightarrow> Pass p
            | Some src \<Rightarrow> from_variadic E infr src (VStr name) c p) = Pass p2
      \<longrightarrow> (mularg_class f name = Some mularg
             \<longrightarrow> infer_argument E infr cc f name c p = Some (([mularg], None), p2))
          \<and> (mularg_class f name = None \<and> default_value f name = Inr d
             \<longrightarrow> infer_argument E infr cc f name c p = infr d c p2)
          \<and> (mularg_class f name = None \<and> default_value f name = Inl err
             \<longrightarrow> infer_argument E infr cc f name c p = Some (([], Some InferenceError), p2))"
    by (simp add: infer_argument_def skip)
  from a b c d e g h show ?thesis by blast
qed


text \<open>
  The function \<open>kwfunc\<close> called as \<open>f(5, k=7)\<close>, \<open>f(**{'k': 7})\<close>, \<open>f(**{'j': 1})\<close>
  and \<open>f(5)\<close>: the keyword, the value of the dictionary, the default \<open>4\<close>, and for
  \<open>f(5)\<close> the default for \<open>k\<close>, the placeholder for \<open>kw\<close> and the failure for \<open>z\<close>.
\<close>

theorem binder_without_argnames_witness:
  "argnames (arguments_of kwfunc) = None
   \<and> infer_function empty_scope (infer 1 empty_scope) kwfunc
        (fresh_context\<lparr>lookupname := Some ''k''\<rparr>) []
      = Some (([YES], None), [])
   \<and> infer_argument empty_scope (infer 1 empty_scope)
        (CallContext_init [Const (VInt 5), Keyword ''k'' (Const (VInt 7))] None None)
        kwfunc ''k'' fresh_context []
      = Some (([Const (VInt 7)], None), [])
   \<and> infer_argument empty_scope (infer 1 empty_scope)
        (CallContext_init [] None (Some (Dict [Const (VStr ''k''), Const (VInt 7)])))
        kwfunc ''k'' fresh_context []
      = Some (([Const (VInt 7)], None), [])
   \<and> infer_argument empty_scope (infer 1 empty_scope)
        (CallContext_init [] None (Some (Dict [Const (VStr ''j''), Const (VInt 1)])))
        kwfunc ''k'' fresh_context []
      = Some (([Const (VInt 4)], None), [])
   \<and> infer_argument empty_scope (infer 1 empty_scope)
        (CallContext_init [Const (VInt 5)] None None) kwfunc ''k'' fresh_context []
      = Some (([Const (VInt 4)], None), [])
   \<and> infer_argument empty_scope (infer 1 empty_scope)
        (CallContext_init [Const (VInt 5)] None None) kwfunc ''kw'' fresh_context []
      = Some (([Dict []], None), [])
   \<and> infer_argument empty_scope (infer 1 empty_scope)
        (CallContext_init [Const (VInt 5)] None None) kwfunc ''z'' fresh_context []
      = Some (([], Some InferenceError), [])"
proof -
  have unknown: "argnames (arguments_of kwfunc) = None"
    by (simp add: kwfunc_def arguments_of_def)
  have no_call: "infer_function empty_scope (infer 1 empty_scope) kwfunc
        (fresh_context\<lparr>lookupname := Some ''k''\<rparr>) [] = Some (([YES], None), [])"
    using binder_without_argnames [OF unknown, where c = "fresh_context\<lparr>lookupname := Some ''k''\<rparr>"
        and name = "''k''" and E = empty_scope and infr = "infer 1 empty_scope" and p = "[]"]
    by (simp add: fresh_context_def)
  have keyword: "infer_argument empty_scope (infer 1 empty_scope)
        (CallContext_init [Const (VInt 5), Keyword ''k'' (Const (VInt 7))] None None)
        kwfunc ''k'' fresh_context [] = Some (([Const (VInt 7)], None), [])"
    using binder_without_argnames [OF unknown, where name = "''k''" and expr = "Const (VInt 7)"
        and cc = "CallContext_init [Const (VInt 5), Keyword ''k'' (Const (VInt 7))] None None"
        and E = empty_scope and infr = "infer 1 empty_scope" and c = fresh_context and p = "[]"]
    by (simp add: CallContext_init_def infer_Const)
  have hit: "infer_argument empty_scope (infer 1 empty_scope)
        (CallContext_init [] None (Some (Dict [Const (VStr ''k''), Const (VInt 7)])))
        kwfunc ''k'' fresh_context [] = Some (([Const (VInt 7)], None), [])"
    using binder_without_argnames [OF unknown, where name = "''k''"
        and cc = "CallContext_init [] None (Some (Dict [Const (VStr ''k''), Const (VInt 7)]))"
        and src = "Dict [Const (VStr ''k''), Const (VInt 7)]" and key = "Const (VStr ''k'')"
        and v = "Const (VInt 7)" and kc = "Const (VStr ''k'')" and q = "[]" and ?p1.0 = "[]"
        and E = empty_scope and infr = "infer 1 empty_scope" and c = fresh_context and p = "[]"]
    by (simp add: CallContext_init_def infer_Const infer.simps infer_end_def empty_scope_def
          raises_at_call_def)
  have miss: "from_variadic empty_scope (infer 1 empty_scope)
        (Dict [Const (VStr ''j''), Const (VInt 1)]) (VStr ''k'') fresh_context [] = Pass []"
    by (simp add: from_variadic_def getitem_def infer.simps infer_end_def empty_scope_def
          is_InferenceError_def)
  have fallback: "infer_argument empty_scope (infer 1 empty_scope)
        (CallContext_init [] None (Some (Dict [Const (VStr ''j''), Const (VInt 1)])))
        kwfunc ''k'' fresh_context [] = Some (([Const (VInt 4)], None), [])"
    using miss binder_without_argnames [OF unknown, where name = "''k''"
        and cc = "CallContext_init [] None (Some (Dict [Const (VStr ''j''), Const (VInt 1)]))"
        and ?p2.0 = "[]" and d = "Const (VInt 4)"
        and E = empty_scope and infr = "infer 1 empty_scope" and c = fresh_context and p = "[]"]
    by (simp add: CallContext_init_def infer_Const kwfunc_def mularg_class_def default_value_def
          arguments_of_def)
  have dflt: "infer_argument empty_scope (infer 1 empty_scope)
        (CallContext_init [Const (VInt 5)] None None) kwfunc ''k'' fresh_context []
      = Some (([Const (VInt 4)], None), [])"
    using binder_without_argnames [OF unknown, where name = "''k''"
        and cc = "CallContext_init [Const (VInt 5)] None None"
        and ?p2.0 = "[]" and d = "Const (VInt 4)"
        and E = empty_scope and infr = "infer 1 empty_scope" and c = fresh_context and p = "[]"]
    by (simp add: CallContext_init_def is_Keyword_def infer_Const kwfunc_def mularg_class_def
          default_value_def arguments_of_def)
  have collector: "infer_argument empty_scope (infer 1 empty_scope)
        (CallContext_init [Const (VInt 5)] None None) kwfunc ''kw'' fresh_context []
      = Some (([Dict []], None), [])"
    using binder_without_argnames [OF unknown, where name = "''kw''"
        and cc = "CallContext_init [Const (VInt 5)] None None"
        and ?p2.0 = "[]" and mularg = "Dict []"
        and E = empty_scope and infr = "infer 1 empty_scope" and c = fresh_context and p = "[]"]
    by (simp add: CallContext_init_def is_Keyword_def kwfunc_def mularg_class_def
          arguments_of_def)
  have no_value: "infer_argument empty_scope (infer 1 empty_scope)
        (CallContext_init [Const (VInt 5)] None None) kwfunc ''z'' fresh_context []
      = Some (([], Some InferenceError), [])"
    using binder_without_argnames [OF unknown, where name = "''z''"
        and cc = "CallContext_init [Const (VInt 5)] None None"
        and ?p2.0 = "[]" and err = NoDefault
        and E = empty_scope and infr = "infer 1 empty_scope" and c = fresh_context and p = "[]"]
    by (simp add: CallContext_init_def is_Keyword_def kwfunc_def mularg_class_def
          default_value_def arguments_of_def)
  from unknown no_call keyword hit fallback dflt collector no_value show ?thesis by simp
qed

end
